theory Spec2Isabelle
  imports Complex_Main "HOL-Library.Log_Nat" "HOL-Library.Word"
begin

unbundle bit_operations_syntax

section \<open>Values shared by the plugin and its collaborators\<close>

text \<open>
  A JavaScript \<open>Date\<close> is compared through its time value, an integral number of
  milliseconds since the epoch. Strings are modelled by their UTF-8 bytes, one
  \<^typ>\<open>char\<close> per byte (what \<open>createHash(...).update(token)\<close> feeds to the digest).
\<close>

type_synonym date = int

text \<open>A \<open>Date\<close> object: \<open>None\<close> is the Invalid Date, whose time value is \<open>NaN\<close>.\<close>

type_synonym js_date = "date option"

text \<open>The status names of the framework's \<open>c.error(status, {message})\<close>.\<close>

datatype status = BAD_REQUEST | UNAUTHORIZED | FORBIDDEN | NOT_FOUND | INTERNAL_SERVER_ERROR

datatype api_error = APIError status string

fun error_status :: "api_error \<Rightarrow> status" where
  "error_status (APIError st msg) = st"

fun error_message :: "api_error \<Rightarrow> string" where
  "error_message (APIError st msg) = msg"


section \<open>JavaScript numbers and dates\<close>

text \<open>
  The expiry time is computed by \<open>new Date(Date.now() + opts.expiresIn * 60 * 1000)\<close> on
  JavaScript numbers, which are IEEE 754 binary64 values. The language is not part of the
  repository; its arithmetic is written out here after ECMA-262 (\<open>Number::multiply\<close>,
  \<open>Number::add\<close>, \<open>TimeClip\<close>, the relational comparison) and IEEE 754 (round to
  nearest, ties to even). \<open>Finite q\<close> is a finite number of value \<open>q\<close>; the sign of
  zero is not kept, as no result here depends on it.
\<close>

datatype number = NaN | PosInfinity | NegInfinity | Finite rat

definition pow2 :: "int \<Rightarrow> rat" where
  "pow2 e = (if 0 \<le> e then 2 ^ nat e else 1 / 2 ^ nat (- e))"

text \<open>The exponent of a positive rational: \<open>pow2 (ilog2 a) \<le> a < pow2 (ilog2 a + 1)\<close>.\<close>

definition ilog2 :: "rat \<Rightarrow> int" where
  "ilog2 a = (let (p, q) = quotient_of a; d = bitlen p - bitlen q
              in if pow2 d \<le> a then d else d - 1)"

definition round_half_even :: "rat \<Rightarrow> int" where
  "round_half_even m =
     (let f = \<lfloor>m\<rfloor>; d = m - of_int f
      in if d < 1 / 2 then f else if 1 / 2 < d then f + 1 else if even f then f else f + 1)"

text \<open>
  The binary64 value nearest to a rational: 53 significant bits, exponents from -1022
  (below it the spacing stays \<open>2 ^ -1074\<close>) to 1023 (beyond it the result is infinite).
\<close>

definition round_double :: "rat \<Rightarrow> number" where
  "round_double x =
     (if x = 0 then Finite 0
      else let a = \<bar>x\<bar>;
               e = max (ilog2 a) (- 1022);
               u = pow2 (e - 52);
               r = of_int (round_half_even (a / u)) * u
           in if pow2 1024 \<le> r then (if 0 < x then PosInfinity else NegInfinity)
              else Finite (if 0 < x then r else - r))"

text \<open>A number written as a rational stands for the binary64 value nearest to it.\<close>

fun to_double :: "number \<Rightarrow> number" where
  "to_double (Finite q) = round_double q"
| "to_double x = x"

fun js_mul :: "number \<Rightarrow> number \<Rightarrow> number" where
  "js_mul (Finite x) (Finite y) = round_double (x * y)"
| "js_mul NaN _ = NaN"
| "js_mul _ NaN = NaN"
| "js_mul (Finite x) PosInfinity =
     (if x = 0 then NaN else if 0 < x then PosInfinity else NegInfinity)"
| "js_mul (Finite x) NegInfinity =
     (if x = 0 then NaN else if 0 < x then NegInfinity else PosInfinity)"
| "js_mul PosInfinity (Finite y) =
     (if y = 0 then NaN else if 0 < y then PosInfinity else NegInfinity)"
| "js_mul NegInfinity (Finite y) =
     (if y = 0 then NaN else if 0 < y then NegInfinity else PosInfinity)"
| "js_mul PosInfinity PosInfinity = PosInfinity"
| "js_mul NegInfinity NegInfinity = PosInfinity"
| "js_mul PosInfinity NegInfinity = NegInfinity"
| "js_mul NegInfinity PosInfinity = NegInfinity"

fun js_add :: "number \<Rightarrow> number \<Rightarrow> number" where
  "js_add (Finite x) (Finite y) = round_double (x + y)"
| "js_add NaN _ = NaN"
| "js_add _ NaN = NaN"
| "js_add PosInfinity NegInfinity = NaN"
| "js_add NegInfinity PosInfinity = NaN"
| "js_add PosInfinity _ = PosInfinity"
| "js_add NegInfinity _ = NegInfinity"
| "js_add _ PosInfinity = PosInfinity"
| "js_add _ NegInfinity = NegInfinity"

text \<open>
  \<open>new Date(value)\<close> for a number: \<open>TimeClip\<close> gives the Invalid Date for a value that
  is not finite or beyond 8.64e15 milliseconds, and otherwise drops the fraction of a
  millisecond, towards zero.
\<close>

fun new_Date :: "number \<Rightarrow> js_date" where
  "new_Date (Finite t) =
     (if 8640000000000000 < \<bar>t\<bar> then None
      else Some (if 0 \<le> t then \<lfloor>t\<rfloor> else \<lceil>t\<rceil>))"
| "new_Date x = None"

text \<open>\<open>a < b\<close> on two dates compares their time values; with \<open>NaN\<close> it is false.\<close>

fun date_less :: "js_date \<Rightarrow> js_date \<Rightarrow> bool" where
  "date_less (Some a) (Some b) = (a < b)"
| "date_less x y = False"


section \<open>utils.ts: the default key hasher\<close>

text \<open>
  \<open>defaultKeyHasher\<close> is \<open>createHash("sha256").update(token).digest().toString("base64url")\<close>.
  Modelled from the spec ("SHA-256, output base64url-encoded, no padding"): Node's digest
  and encoding are not part of the repository; they are written out here after FIPS 180-4
  and RFC 4648 section 5, so that the identifier of a record can be computed.
\<close>

type_synonym byte = "8 word"
type_synonym w32 = "32 word"

definition rotr :: "nat \<Rightarrow> w32 \<Rightarrow> w32" where
  "rotr n x = drop_bit n x OR push_bit (32 - n) x"

definition Ch :: "w32 \<Rightarrow> w32 \<Rightarrow> w32 \<Rightarrow> w32" where
  "Ch x y z = (x AND y) XOR (NOT x AND z)"

definition Maj :: "w32 \<Rightarrow> w32 \<Rightarrow> w32 \<Rightarrow> w32" where
  "Maj x y z = (x AND y) XOR (x AND z) XOR (y AND z)"

definition bsig0 :: "w32 \<Rightarrow> w32" where
  "bsig0 x = rotr 2 x XOR rotr 13 x XOR rotr 22 x"

definition bsig1 :: "w32 \<Rightarrow> w32" where
  "bsig1 x = rotr 6 x XOR rotr 11 x XOR rotr 25 x"

definition ssig0 :: "w32 \<Rightarrow> w32" where
  "ssig0 x = rotr 7 x XOR rotr 18 x XOR drop_bit 3 x"

definition ssig1 :: "w32 \<Rightarrow> w32" where
  "ssig1 x = rotr 17 x XOR rotr 19 x XOR drop_bit 10 x"

definition K256 :: "w32 list" where
  "K256 = [
   0x428A2F98, 0x71374491, 0xB5C0FBCF, 0xE9B5DBA5, 0x3956C25B, 0x59F111F1, 0x923F82A4, 0xAB1C5ED5,
   0xD807AA98, 0x12835B01, 0x243185BE, 0x550C7DC3, 0x72BE5D74, 0x80DEB1FE, 0x9BDC06A7, 0xC19BF174,
   0xE49B69C1, 0xEFBE4786, 0x0FC19DC6, 0x240CA1CC, 0x2DE92C6F, 0x4A7484AA, 0x5CB0A9DC, 0x76F988DA,
   0x983E5152, 0xA831C66D, 0xB00327C8, 0xBF597FC7, 0xC6E00BF3, 0xD5A79147, 0x06CA6351, 0x14292967,
   0x27B70A85, 0x2E1B2138, 0x4D2C6DFC, 0x53380D13, 0x650A7354, 0x766A0ABB, 0x81C2C92E, 0x92722C85,
   0xA2BFE8A1, 0xA81A664B, 0xC24B8B70, 0xC76C51A3, 0xD192E819, 0xD6990624, 0xF40E3585, 0x106AA070,
   0x19A4C116, 0x1E376C08, 0x2748774C, 0x34B0BCB5, 0x391C0CB3, 0x4ED8AA4A, 0x5B9CCA4F, 0x682E6FF3,
   0x748F82EE, 0x78A5636F, 0x84C87814, 0x8CC70208, 0x90BEFFFA, 0xA4506CEB, 0xBEF9A3F7, 0xC67178F2]"

definition H256 :: "w32 list" where
  "H256 = [0x6a09e667, 0xbb67ae85, 0x3c6ef372, 0xa54ff53a,
           0x510e527f, 0x9b05688c, 0x1f83d9ab, 0x5be0cd19]"

fun be_word :: "byte list \<Rightarrow> w32" where
  "be_word [] = 0"
| "be_word (b # bs) = push_bit (8 * length bs) (ucast b) OR be_word bs"

definition word_bytes :: "w32 \<Rightarrow> byte list" where
  "word_bytes w = [ucast (drop_bit 24 w), ucast (drop_bit 16 w), ucast (drop_bit 8 w), ucast w]"

definition len_bytes :: "nat \<Rightarrow> byte list" where
  "len_bytes n =
     (let w = (of_nat n :: 64 word)
      in map (\<lambda>i. ucast (drop_bit (8 * i) w)) [7, 6, 5, 4, 3, 2, 1, 0])"

definition pad :: "byte list \<Rightarrow> byte list" where
  "pad m = m @ [0x80] @ replicate ((119 - length m mod 64) mod 64) 0 @ len_bytes (8 * length m)"

fun chunks :: "nat \<Rightarrow> 'a list \<Rightarrow> 'a list list" where
  "chunks 0 xs = []"
| "chunks (Suc n) [] = []"
| "chunks (Suc n) (x # xs) = take (Suc n) (x # xs) # chunks (Suc n) (drop n xs)"

fun schedule :: "nat \<Rightarrow> w32 list \<Rightarrow> w32 list" where
  "schedule 0 w = w"
| "schedule (Suc n) w =
     (let t = length w in
      schedule n (w @ [ssig1 (w ! (t - 2)) + w ! (t - 7) + ssig0 (w ! (t - 15)) + w ! (t - 16)]))"

fun sha_round :: "w32 list \<Rightarrow> w32 \<times> w32 \<Rightarrow> w32 list" where
  "sha_round [a, b, c, d, e, f, g, h] (k, w) =
     (let t1 = h + bsig1 e + Ch e f g + k + w;
          t2 = bsig0 a + Maj a b c
      in [t1 + t2, a, b, c, d + t1, e, f, g])"
| "sha_round st _ = st"

definition compress :: "w32 list \<Rightarrow> byte list \<Rightarrow> w32 list" where
  "compress hs block =
     (let w = schedule 48 (map be_word (chunks 4 block))
      in map2 (+) hs (foldl sha_round hs (zip K256 w)))"

definition sha256 :: "byte list \<Rightarrow> byte list" where
  "sha256 m = concat (map word_bytes (foldl compress H256 (chunks 64 (pad m))))"

definition b64url_alphabet :: string where
  "b64url_alphabet = ''ABCDEFGHIJKLMNOPQRSTUVWXYZabcdefghijklmnopqrstuvwxyz0123456789-_''"

definition b64c :: "w32 \<Rightarrow> char" where
  "b64c n = b64url_alphabet ! unat (n AND 63)"

fun base64url :: "byte list \<Rightarrow> string" where
  "base64url (a # b # c # rest) =
     (let n = push_bit 16 (ucast a) OR push_bit 8 (ucast b) OR ucast c
      in b64c (drop_bit 18 n) # b64c (drop_bit 12 n) # b64c (drop_bit 6 n) # b64c n
         # base64url rest)"
| "base64url [a, b] =
     (let n = push_bit 16 (ucast a) OR push_bit 8 (ucast b)
      in [b64c (drop_bit 18 n), b64c (drop_bit 12 n), b64c (drop_bit 6 n)])"
| "base64url [a] =
     (let n = push_bit 16 (ucast a)
      in [b64c (drop_bit 18 n), b64c (drop_bit 12 n)])"
| "base64url [] = []"

definition utf8 :: "string \<Rightarrow> byte list" where
  "utf8 s = map (\<lambda>c. of_nat (of_char c)) s"

definition defaultKeyHasher :: "string \<Rightarrow> string" where
  "defaultKeyHasher tok = base64url (sha256 (utf8 tok))"


section \<open>The external stores\<close>

record user =
  user_id :: nat
  email :: string

record session =
  session_id :: nat
  userId :: nat
  token :: string

text \<open>The pair \<open>{ session, user }\<close> that the session lookup and the session middleware yield.\<close>

record auth_session =
  session :: session
  user :: user

record verification =
  verification_id :: nat
  verification_identifier :: string
  verification_value :: string
  expiresAt :: js_date

text \<open>One entry per call of the plugin to \<open>c.context.internalAdapter\<close>, in call order.\<close>

datatype call =
    CreateVerificationValue string
  | FindVerificationValue string
  | DeleteVerificationValue nat
  | FindSession string
  | CreateSession nat

record db =
  verifications :: "verification list"
  sessions :: "session list"
  users :: "user list"
  next_id :: nat
  calls :: "call list"

text \<open>
  The request context \<open>c\<close>: \<open>c.request\<close> (absent for a direct server-side call),
  \<open>c.context.session\<close> as resolved by the session middleware, and what the environment
  answers during this call: the clock (\<open>Date.now()\<close>, \<open>new Date()\<close>), the result of
  \<open>generateRandomString(n)\<close>, and the durable token the session store gives to a session
  it creates. The clock gives a time value: a whole number of milliseconds, of a size
  that binary64 holds exactly.
\<close>

record ctx =
  request :: "unit option"
  ctx_session :: auth_session
  now :: date
  generateRandomString :: "nat \<Rightarrow> string"
  newSessionToken :: string

text \<open>
  Modelled from the spec: \<open>c.context.internalAdapter\<close> belongs to the host framework and is
  not in the repository. The spec assumes "a generic key/value verification record store
  with create/find/delete-by-identifier operations and a generic session store with
  create/find operations", whose records carry a "store-assigned identity, used only for
  deletion", and states that collisions of identifiers "are not deduplicated". Where the
  spec is silent the model fixes this: identities come from a counter, records are kept
  in creation order, a lookup returns the most recently created record of the identifier,
  and deleting an identity that is not stored changes nothing. A record is stored as it
  is given, an Invalid Date included. Every operation notes its call in \<open>calls\<close>.
\<close>

definition createVerificationValue :: "string \<Rightarrow> string \<Rightarrow> js_date \<Rightarrow> db \<Rightarrow> db" where
  "createVerificationValue v ident expires_at s =
     s\<lparr>verifications := verifications s @
          [\<lparr>verification_id = next_id s, verification_identifier = ident,
            verification_value = v, expiresAt = expires_at\<rparr>],
       next_id := Suc (next_id s),
       calls := calls s @ [CreateVerificationValue ident]\<rparr>"

definition findVerificationValue :: "string \<Rightarrow> db \<Rightarrow> verification option \<times> db" where
  "findVerificationValue ident s =
     (find (\<lambda>v. verification_identifier v = ident) (rev (verifications s)),
      s\<lparr>calls := calls s @ [FindVerificationValue ident]\<rparr>)"

definition deleteVerificationValue :: "nat \<Rightarrow> db \<Rightarrow> db" where
  "deleteVerificationValue i s =
     s\<lparr>verifications := filter (\<lambda>v. verification_id v \<noteq> i) (verifications s),
       calls := calls s @ [DeleteVerificationValue i]\<rparr>"

definition findSession :: "string \<Rightarrow> db \<Rightarrow> auth_session option \<times> db" where
  "findSession tok s =
     ((case find (\<lambda>x. token x = tok) (sessions s) of
         None \<Rightarrow> None
       | Some x \<Rightarrow>
           (case find (\<lambda>u. user_id u = userId x) (users s) of
              None \<Rightarrow> None
            | Some u \<Rightarrow> Some \<lparr>session = x, user = u\<rparr>)),
      s\<lparr>calls := calls s @ [FindSession tok]\<rparr>)"

definition createSession :: "nat \<Rightarrow> ctx \<Rightarrow> db \<Rightarrow> session \<times> db" where
  "createSession uid c s =
     (let newSession = \<lparr>session_id = next_id s, userId = uid, token = newSessionToken c\<rparr>
      in (newSession,
          s\<lparr>sessions := sessions s @ [newSession],
            next_id := Suc (next_id s),
            calls := calls s @ [CreateSession uid]\<rparr>))"


section \<open>index.ts: options\<close>

datatype store_token = Plain | Hashed | CustomHasher "string \<Rightarrow> string"

text \<open>
  A key of the options object: not given, given as \<open>undefined\<close> (the types allow it), or
  given with a value.
\<close>

datatype 'a given = Absent | Undefined | Given 'a

text \<open>
  \<open>OneTimeTokenSessionOptions\<close>. For the two keys that are only tested for truth,
  \<open>None\<close> is a key that is absent or \<open>undefined\<close>. \<open>expiresIn\<close> is a number, in
  minutes. The callbacks \<open>generateToken\<close> and \<open>hash\<close> are total functions that do not
  touch the store.
\<close>

record options =
  options_expiresIn :: "number given"
  options_disableClientRequest :: "bool option"
  options_generateToken :: "(auth_session \<Rightarrow> ctx \<Rightarrow> string) option"
  options_storeToken :: "store_token given"
  options_createSession :: "bool given"

text \<open>
  \<open>opts = { storeToken: "plain", createSession: true, expiresIn: 3, ...options }\<close>: a key
  that is absent keeps the default, a key given as \<open>undefined\<close> overwrites it. Each
  definition is the value that the handlers read: \<open>opts.storeToken\<close> is compared with
  \<open>"hashed"\<close> and tested for a custom hasher, so \<open>undefined\<close> stores the token as it
  is; \<open>opts.createSession\<close> is tested for truth; \<open>opts.expiresIn\<close> is multiplied, and
  \<open>undefined * 60\<close> is \<open>NaN\<close>.
\<close>

definition opts_storeToken :: "options \<Rightarrow> store_token" where
  "opts_storeToken options =
     (case options_storeToken options of Absent \<Rightarrow> Plain | Undefined \<Rightarrow> Plain | Given k \<Rightarrow> k)"

definition opts_createSession :: "options \<Rightarrow> bool" where
  "opts_createSession options =
     (case options_createSession options of Absent \<Rightarrow> True | Undefined \<Rightarrow> False | Given b \<Rightarrow> b)"

definition opts_expiresIn :: "options \<Rightarrow> number" where
  "opts_expiresIn options =
     (case options_expiresIn options of
        Absent \<Rightarrow> Finite 3 | Undefined \<Rightarrow> NaN | Given x \<Rightarrow> to_double x)"

definition opts_disableClientRequest :: "options \<Rightarrow> bool" where
  "opts_disableClientRequest options = (options_disableClientRequest options = Some True)"

definition storeToken :: "options \<Rightarrow> string \<Rightarrow> string" where
  "storeToken options tok =
     (case opts_storeToken options of
        Hashed \<Rightarrow> defaultKeyHasher tok
      | CustomHasher hash \<Rightarrow> hash tok
      | Plain \<Rightarrow> tok)"


section \<open>index.ts: the generate endpoint\<close>

definition generateOneTimeTokenSession :: "options \<Rightarrow> ctx \<Rightarrow> db \<Rightarrow> (api_error + string) \<times> db" where
  "generateOneTimeTokenSession options c s =
     (if opts_disableClientRequest options \<and> request c \<noteq> None then
        (Inl (APIError BAD_REQUEST ''Client requests are disabled''), s)
      else
        let sess = ctx_session c;
            tok = (case options_generateToken options of
                     Some gen \<Rightarrow> gen sess c
                   | None \<Rightarrow> generateRandomString c 32);
            expires_at = new_Date (js_add (Finite (of_int (now c)))
                             (js_mul (js_mul (opts_expiresIn options) (Finite 60)) (Finite 1000)));
            storedToken = storeToken options tok
        in (Inr tok,
            createVerificationValue (token (session sess))
              (''one-time-token:'' @ storedToken) expires_at s))"


section \<open>index.ts: the verify endpoint\<close>

text \<open>
  The body schema of the source is \<open>z.object({ token: z.string().min(1, "Token is required") })\<close>:
  a string of length at least 1, with no trimming.
  Modelled from the spec: the endpoint wrapper of the host framework, which is not in the
  repository, checks the body against the schema before the handler runs, and input that
  fails it "fails validation with a \<open>BAD_REQUEST\<close>-class error before any store access".
\<close>

definition parse_body :: "string \<Rightarrow> api_error + string" where
  "parse_body tok =
     (if length tok < 1 then Inl (APIError BAD_REQUEST ''Token is required'') else Inr tok)"

text \<open>
  The JSON body of a successful verify, and the session cookie that
  \<open>setSessionCookie\<close> puts on the response (if any).
\<close>

record response =
  res_session :: session
  res_user :: user
  res_token :: "string option"
  res_cookie :: "auth_session option"

definition verify_handler :: "options \<Rightarrow> ctx \<Rightarrow> string \<Rightarrow> db \<Rightarrow> (api_error + response) \<times> db" where
  "verify_handler options c tok s =
     (let storedToken = storeToken options tok;
          (verificationValue, s1) = findVerificationValue (''one-time-token:'' @ storedToken) s
      in case verificationValue of
           None \<Rightarrow> (Inl (APIError BAD_REQUEST ''Invalid token''), s1)
         | Some v \<Rightarrow>
             if date_less (expiresAt v) (Some (now c)) then
               (Inl (APIError BAD_REQUEST ''Token expired''),
                deleteVerificationValue (verification_id v) s1)
             else
               let s2 = deleteVerificationValue (verification_id v) s1;
                   (found, s3) = findSession (verification_value v) s2
               in case found of
                    None \<Rightarrow> (Inl (APIError BAD_REQUEST ''Session not found''), s3)
                  | Some sess \<Rightarrow>
                      if opts_createSession options then
                        let (newSession, s4) = createSession (userId (session sess)) c s3
                        in (Inr \<lparr>res_session = newSession, res_user = user sess,
                                 res_token = Some (token newSession),
                                 res_cookie = Some \<lparr>session = newSession, user = user sess\<rparr>\<rparr>,
                            s4)
                      else
                        (Inr \<lparr>res_session = session sess, res_user = user sess,
                               res_token = None, res_cookie = None\<rparr>,
                         s3))"

definition verifyOneTimeTokenSession :: "options \<Rightarrow> ctx \<Rightarrow> string \<Rightarrow> db \<Rightarrow> (api_error + response) \<times> db" where
  "verifyOneTimeTokenSession options c body_token s =
     (case parse_body body_token of
        Inl e \<Rightarrow> (Inl e, s)
      | Inr tok \<Rightarrow> verify_handler options c tok s)"


section \<open>Runs of calls\<close>

text \<open>
  Calls that do not overlap: the store after each call is the store of the next.
  \<open>outcomes\<close> collects what the calls of a run return, \<open>store_after\<close> is the final
  store; \<open>verify_all\<close> is the final store of a run of verify calls.
\<close>

datatype request = Generate ctx | Verify ctx string

datatype outcome = Generated "api_error + string" | Verified "api_error + response"

fun serve :: "options \<Rightarrow> request \<Rightarrow> db \<Rightarrow> outcome \<times> db" where
  "serve options (Generate c) s =
     (Generated (fst (generateOneTimeTokenSession options c s)),
      snd (generateOneTimeTokenSession options c s))"
| "serve options (Verify c tok) s =
     (Verified (fst (verifyOneTimeTokenSession options c tok s)),
      snd (verifyOneTimeTokenSession options c tok s))"

fun outcomes :: "options \<Rightarrow> request list \<Rightarrow> db \<Rightarrow> outcome list" where
  "outcomes options [] s = []"
| "outcomes options (r # rs) s =
     fst (serve options r s) # outcomes options rs (snd (serve options r s))"

fun store_after :: "options \<Rightarrow> request list \<Rightarrow> db \<Rightarrow> db" where
  "store_after options [] s = s"
| "store_after options (r # rs) s = store_after options rs (snd (serve options r s))"

fun verify_all :: "options \<Rightarrow> (ctx \<times> string) list \<Rightarrow> db \<Rightarrow> db" where
  "verify_all options [] s = s"
| "verify_all options ((c, tok) # cs) s =
     verify_all options cs (snd (verifyOneTimeTokenSession options c tok s))"

text \<open>A generate call that returned a token whose stored form is \<open>x\<close>.\<close>

fun issues :: "options \<Rightarrow> string \<Rightarrow> outcome \<Rightarrow> bool" where
  "issues options x (Generated (Inr tok)) = (storeToken options tok = x)"
| "issues options x out = False"

text \<open>The records a store holds under one identifier.\<close>

definition records_of :: "string \<Rightarrow> db \<Rightarrow> verification list" where
  "records_of ident s = filter (\<lambda>v. verification_identifier v = ident) (verifications s)"

text \<open>The outcome of a verify call that found a record and went on to delete it.\<close>

fun reached_invalidation :: "api_error + response \<Rightarrow> bool" where
  "reached_invalidation (Inr r) = True"
| "reached_invalidation (Inl e) =
     (e = APIError BAD_REQUEST ''Token expired'' \<or> e = APIError BAD_REQUEST ''Session not found'')"

text \<open>
  The number of calls of a run that found a record under the stored form \<open>x\<close> and went
  on to delete it.
\<close>

fun redemptions :: "options \<Rightarrow> string \<Rightarrow> (ctx \<times> string) list \<Rightarrow> db \<Rightarrow> nat" where
  "redemptions options x [] s = 0"
| "redemptions options x ((c, tok) # cs) s =
     (if storeToken options tok = x \<and>
         reached_invalidation (fst (verifyOneTimeTokenSession options c tok s))
      then 1 else 0)
     + redemptions options x cs (snd (verifyOneTimeTokenSession options c tok s))"


section \<open>The verify handler between its suspension points\<close>

text \<open>
  The handler is an \<open>async\<close> function: it can be suspended at each \<open>await\<close> of an adapter
  call, and another request may run in between. A request in flight is at one of these
  points: about to look the record up, about to delete the record it found, about to
  resolve the session, about to create the new session, or finished. Each step performs
  one adapter call, atomically.
\<close>

datatype proc =
    Start string
  | Found verification
  | Deleted verification
  | Resolved auth_session
  | Done "api_error + response"

fun step :: "options \<Rightarrow> ctx \<Rightarrow> proc \<Rightarrow> db \<Rightarrow> proc \<times> db" where
  "step options c (Start tok) s =
     (let storedToken = storeToken options tok;
          (verificationValue, s1) = findVerificationValue (''one-time-token:'' @ storedToken) s
      in case verificationValue of
           None \<Rightarrow> (Done (Inl (APIError BAD_REQUEST ''Invalid token'')), s1)
         | Some v \<Rightarrow> (Found v, s1))"
| "step options c (Found v) s =
     (if date_less (expiresAt v) (Some (now c)) then
        (Done (Inl (APIError BAD_REQUEST ''Token expired'')),
         deleteVerificationValue (verification_id v) s)
      else (Deleted v, deleteVerificationValue (verification_id v) s))"
| "step options c (Deleted v) s =
     (let (found, s3) = findSession (verification_value v) s
      in case found of
           None \<Rightarrow> (Done (Inl (APIError BAD_REQUEST ''Session not found'')), s3)
         | Some sess \<Rightarrow>
             if opts_createSession options then (Resolved sess, s3)
             else (Done (Inr \<lparr>res_session = session sess, res_user = user sess,
                              res_token = None, res_cookie = None\<rparr>),
                   s3))"
| "step options c (Resolved sess) s =
     (let (newSession, s4) = createSession (userId (session sess)) c s
      in (Done (Inr \<lparr>res_session = newSession, res_user = user sess,
                       res_token = Some (token newSession),
                       res_cookie = Some \<lparr>session = newSession, user = user sess\<rparr>\<rparr>),
          s4))"
| "step options c (Done r) s = (Done r, s)"

fun steps :: "options \<Rightarrow> ctx \<Rightarrow> nat \<Rightarrow> proc \<Rightarrow> db \<Rightarrow> proc \<times> db" where
  "steps options c 0 p s = (p, s)"
| "steps options c (Suc n) p s = (let (p', s') = step options c p s in steps options c n p' s')"

text \<open>Two requests in flight; the schedule says which of them takes the next step.\<close>

datatype turn = First | Second

fun interleave ::
  "options \<Rightarrow> ctx \<Rightarrow> ctx \<Rightarrow> turn list \<Rightarrow> proc \<times> proc \<times> db \<Rightarrow> proc \<times> proc \<times> db" where
  "interleave options c1 c2 [] st = st"
| "interleave options c1 c2 (First # ts) (p1, p2, s) =
     (let (p1', s') = step options c1 p1 s in interleave options c1 c2 ts (p1', p2, s'))"
| "interleave options c1 c2 (Second # ts) (p1, p2, s) =
     (let (p2', s') = step options c2 p2 s in interleave options c1 c2 ts (p1, p2', s'))"


section \<open>Example values\<close>

definition alice :: user where
  "alice = \<lparr>user_id = 1, email = ''alice@example.com''\<rparr>"

definition alice_session :: session where
  "alice_session = \<lparr>session_id = 2, userId = 1, token = ''durable-token-of-alice''\<rparr>"

definition store0 :: db where
  "store0 = \<lparr>verifications = [], sessions = [alice_session], users = [alice],
             next_id = 3, calls = []\<rparr>"

text \<open>A direct server-side call at time 1000, and the same call coming in as a request.\<close>

definition server_ctx :: ctx where
  "server_ctx = \<lparr>request = None,
                 ctx_session = \<lparr>session = alice_session, user = alice\<rparr>,
                 now = 1000,
                 generateRandomString = (\<lambda>n. replicate n CHR ''x''),
                 newSessionToken = ''fresh-durable-token''\<rparr>"

definition client_ctx :: ctx where
  "client_ctx = server_ctx\<lparr>request := Some ()\<rparr>"

text \<open>
  \<open>oneTimeTokenSession()\<close> without options, and the same with a generator that always
  returns one token, as in the repository's tests.
\<close>

definition no_options :: options where
  "no_options = \<lparr>options_expiresIn = Absent, options_disableClientRequest = None,
                 options_generateToken = None, options_storeToken = Absent,
                 options_createSession = Absent\<rparr>"

definition fixed_token :: "string \<Rightarrow> options" where
  "fixed_token tok = no_options\<lparr>options_generateToken := Some (\<lambda>sess c. tok)\<rparr>"

text \<open>The store after alice's session has generated one token by a server call at time 1000.\<close>

definition issued :: "options \<Rightarrow> db" where
  "issued options = snd (generateOneTimeTokenSession options server_ctx store0)"

definition at_time :: "date \<Rightarrow> ctx" where
  "at_time t = server_ctx\<lparr>now := t\<rparr>"

definition other_ctx :: ctx where
  "other_ctx = server_ctx\<lparr>newSessionToken := ''another-durable-token''\<rparr>"

definition hashed_options :: options where
  "hashed_options = (fixed_token ''123456'')\<lparr>options_storeToken := Given Hashed\<rparr>"

text \<open>The custom hasher of the repository's test, and one that drops spaces.\<close>

definition suffix_options :: "string \<Rightarrow> options" where
  "suffix_options tok =
     (fixed_token tok)\<lparr>options_storeToken := Given (CustomHasher (\<lambda>t. t @ ''hashed''))\<rparr>"

definition spaceless_options :: "string \<Rightarrow> options" where
  "spaceless_options tok =
     (fixed_token tok)\<lparr>options_storeToken :=
        Given (CustomHasher (filter (\<lambda>ch. ch \<noteq> CHR '' '')))\<rparr>"

text \<open>A second user, whose session is revoked after a token was generated for it.\<close>

definition bob :: user where
  "bob = \<lparr>user_id = 5, email = ''bob@example.com''\<rparr>"

definition bob_session :: session where
  "bob_session = \<lparr>session_id = 6, userId = 5, token = ''durable-token-of-bob''\<rparr>"

definition bob_ctx :: ctx where
  "bob_ctx = server_ctx\<lparr>ctx_session := \<lparr>session = bob_session, user = bob\<rparr>\<rparr>"

definition store1 :: db where
  "store1 = \<lparr>verifications = [], sessions = [alice_session, bob_session],
             users = [alice, bob], next_id = 7, calls = []\<rparr>"

definition revoke :: "string \<Rightarrow> db \<Rightarrow> db" where
  "revoke tok s = s\<lparr>sessions := filter (\<lambda>x. token x \<noteq> tok) (sessions s)\<rparr>"

text \<open>The same store after every session has been revoked.\<close>

definition revoked :: "db \<Rightarrow> db" where
  "revoked s = s\<lparr>sessions := []\<rparr>"

text \<open>
  The sessions of alice and of bob have each generated the token "123456", and bob's
  session has been revoked since.
\<close>

definition issued_twice :: db where
  "issued_twice =
     revoke ''durable-token-of-bob''
       (store_after (fixed_token ''123456'') [Generate server_ctx, Generate bob_ctx] store1)"

text \<open>A generator that derives the token from the user: two users get two tokens.\<close>

definition user_token :: options where
  "user_token = no_options\<lparr>options_generateToken := Some (\<lambda>sess c. email (user sess))\<rparr>"


section \<open>Whole numbers in binary64 arithmetic\<close>

lemma round_half_even_int [simp]: "round_half_even (of_int z) = z"
  by (simp add: round_half_even_def)

lemma bitlen_1: "bitlen 1 = 1"
  by (simp add: bitlen_alt_def)

lemma ilog2_of_int:
  assumes "0 < j"
  shows "ilog2 (of_int j) = bitlen j - 1"
proof -
  from assms have b: "1 \<le> bitlen j" by (auto simp: bitlen_alt_def)
  from bitlen_bounds [OF assms] have "2 ^ nat (bitlen j - 1) \<le> j" by simp
  then have "(of_int (2 ^ nat (bitlen j - 1)) :: rat) \<le> of_int j"
    by (simp only: of_int_le_iff)
  then have "pow2 (bitlen j - 1) \<le> of_int j"
    using b by (simp add: pow2_def)
  then show ?thesis
    by (simp add: ilog2_def bitlen_1)
qed

lemma round_double_pos_int:
  assumes "0 < j" and "j < 2 ^ 53"
  shows "round_double (of_int j) = Finite (of_int j)"
proof -
  let ?d = "bitlen j - 1"
  from assms(1) have d0: "0 \<le> ?d" by (auto simp: bitlen_alt_def)
  from assms(2) have "bitlen j \<le> 53"
    by (simp add: bitlen_le_iff_power)
  then have d52: "?d \<le> 52" by simp
  have e: "max (ilog2 (of_int j)) (- 1022) = ?d"
    using d0 by (simp add: ilog2_of_int [OF assms(1)])
  have u: "pow2 (?d - 52) = 1 / 2 ^ nat (52 - ?d)"
    using d52 by (cases "?d = 52") (simp_all add: pow2_def)
  have m: "(of_int j :: rat) / (1 / 2 ^ nat (52 - ?d)) = of_int (j * 2 ^ nat (52 - ?d))"
    by simp
  have r: "(of_int (j * 2 ^ nat (52 - ?d)) :: rat) * (1 / 2 ^ nat (52 - ?d)) = of_int j"
    by simp
  from assms(2) have "(of_int j :: rat) < of_int (2 ^ 53)"
    by (simp only: of_int_less_iff)
  also have "(of_int (2 ^ 53) :: rat) \<le> pow2 1024"
    by (simp add: pow2_def)
  finally have small: "\<not> pow2 1024 \<le> (of_int j :: rat)" by simp
  from assms(1)
  have pos: "(0 :: rat) < of_int j" "(of_int j :: rat) \<noteq> 0" "\<bar>of_int j :: rat\<bar> = of_int j"
    by simp_all
  show ?thesis
    unfolding round_double_def Let_def pos(3) e u m r round_half_even_int
    using pos small by simp
qed

text \<open>Every whole number below \<open>2 ^ 53\<close> in size is a binary64 value.\<close>

lemma round_double_int:
  assumes "\<bar>k\<bar> < 2 ^ 53"
  shows "round_double (of_int k) = Finite (of_int k)"
proof (cases "k = 0")
  case True
  then show ?thesis by (simp add: round_double_def)
next
  case False
  show ?thesis
  proof (cases "0 < k")
    case True
    with assms show ?thesis by (intro round_double_pos_int) auto
  next
    case neg: False
    with False have k: "k < 0" by simp
    let ?j = "- k"
    from k assms have j: "0 < ?j" "?j < 2 ^ 53" by auto
    from round_double_pos_int [OF j]
    have p: "round_double (of_int ?j) = Finite (of_int ?j)" .
    have "round_double (- (of_int ?j)) = (case round_double (of_int ?j) of
        Finite r \<Rightarrow> Finite (- r) | PosInfinity \<Rightarrow> NegInfinity | x \<Rightarrow> x)"
      using j(1) by (simp add: round_double_def Let_def)
    with p show ?thesis by simp
  qed
qed

lemma round_double_numeral:
  "numeral w < (2 ^ 53 :: int) \<Longrightarrow> round_double (numeral w) = Finite (numeral w)"
  using round_double_int [of "numeral w"] by simp

lemma round_double_0: "round_double 0 = Finite 0"
  by (simp add: round_double_def)


lemma date_less_Some: "date_less a (Some n) \<longleftrightarrow> (\<exists>e. a = Some e \<and> e < n)"
  by (cases a) simp_all


section \<open>Facts about the stores\<close>

lemma find_rev_None: "find P (rev xs) = None \<longleftrightarrow> filter P xs = []"
  by (auto simp: find_None_iff filter_empty_conv)

lemma find_Some_set: "find P ys = Some v \<Longrightarrow> v \<in> set ys \<and> P v"
  by (induction ys) (auto split: if_splits)

lemma find_rev_Some: "find P (rev xs) = Some v \<Longrightarrow> v \<in> set xs \<and> P v"
  using find_Some_set [of P "rev xs" v] by simp

lemma snd_findVerificationValue:
  "snd (findVerificationValue k s) = s\<lparr>calls := calls s @ [FindVerificationValue k]\<rparr>"
  by (simp add: findVerificationValue_def)

lemma snd_findSession:
  "snd (findSession t s) = s\<lparr>calls := calls s @ [FindSession t]\<rparr>"
  by (simp add: findSession_def)

lemma fst_findSession_calls:
  "fst (findSession t (s\<lparr>calls := cs\<rparr>)) = fst (findSession t s)"
  by (simp add: findSession_def split: option.splits)

lemma fst_findSession_verifications:
  "fst (findSession t (s\<lparr>verifications := vs\<rparr>)) = fst (findSession t s)"
  by (simp add: findSession_def split: option.splits)

lemma fst_findSession_delete:
  "fst (findSession t (deleteVerificationValue i s)) = fst (findSession t s)"
  by (simp add: findSession_def deleteVerificationValue_def split: option.splits)

lemma fst_find_None:
  "fst (findVerificationValue k s) = None \<longleftrightarrow> records_of k s = []"
  by (simp add: findVerificationValue_def records_of_def find_rev_None)

lemma fst_find_Some:
  "fst (findVerificationValue k s) = Some v \<Longrightarrow> v \<in> set (records_of k s)"
  using find_rev_Some [of "\<lambda>v. verification_identifier v = k" "verifications s" v]
  by (simp add: findVerificationValue_def records_of_def)

lemma single_record:
  assumes "length xs \<le> 1" and "v \<in> set xs"
  shows "xs = [v]"
  using assms by (cases xs) auto


section \<open>The outcomes of the verify handler\<close>

lemmas handler_simps =
  verify_handler_def Let_def case_prod_unfold snd_findVerificationValue snd_findSession
  fst_findSession_calls fst_findSession_verifications fst_findSession_delete

lemma verify_nonempty:
  "tok \<noteq> [] \<Longrightarrow> verifyOneTimeTokenSession options c tok s = verify_handler options c tok s"
  by (simp add: verifyOneTimeTokenSession_def parse_body_def)

lemma verify_empty:
  "verifyOneTimeTokenSession options c [] s = (Inl (APIError BAD_REQUEST ''Token is required''), s)"
  by (simp add: verifyOneTimeTokenSession_def parse_body_def)

lemma handler_invalid:
  assumes "fst (findVerificationValue (''one-time-token:'' @ storeToken options tok) s) = None"
  shows "verify_handler options c tok s =
    (Inl (APIError BAD_REQUEST ''Invalid token''),
     s\<lparr>calls := calls s @ [FindVerificationValue (''one-time-token:'' @ storeToken options tok)]\<rparr>)"
  using assms by (simp add: handler_simps)

lemma handler_expired:
  assumes "fst (findVerificationValue (''one-time-token:'' @ storeToken options tok) s) = Some v"
    and "date_less (expiresAt v) (Some (now c))"
  shows "verify_handler options c tok s =
    (Inl (APIError BAD_REQUEST ''Token expired''),
     s\<lparr>verifications := filter (\<lambda>w. verification_id w \<noteq> verification_id v) (verifications s),
       calls := calls s @ [FindVerificationValue (''one-time-token:'' @ storeToken options tok),
                           DeleteVerificationValue (verification_id v)]\<rparr>)"
  using assms by (simp add: handler_simps deleteVerificationValue_def)

lemma handler_session_not_found:
  assumes "fst (findVerificationValue (''one-time-token:'' @ storeToken options tok) s) = Some v"
    and "\<not> date_less (expiresAt v) (Some (now c))"
    and "fst (findSession (verification_value v) s) = None"
  shows "verify_handler options c tok s =
    (Inl (APIError BAD_REQUEST ''Session not found''),
     s\<lparr>verifications := filter (\<lambda>w. verification_id w \<noteq> verification_id v) (verifications s),
       calls := calls s @ [FindVerificationValue (''one-time-token:'' @ storeToken options tok),
                           DeleteVerificationValue (verification_id v),
                           FindSession (verification_value v)]\<rparr>)"
  using assms by (simp add: handler_simps deleteVerificationValue_def)

lemma handler_same_session:
  assumes "fst (findVerificationValue (''one-time-token:'' @ storeToken options tok) s) = Some v"
    and "\<not> date_less (expiresAt v) (Some (now c))"
    and "fst (findSession (verification_value v) s) = Some a"
    and "\<not> opts_createSession options"
  shows "verify_handler options c tok s =
    (Inr \<lparr>res_session = session a, res_user = user a, res_token = None, res_cookie = None\<rparr>,
     s\<lparr>verifications := filter (\<lambda>w. verification_id w \<noteq> verification_id v) (verifications s),
       calls := calls s @ [FindVerificationValue (''one-time-token:'' @ storeToken options tok),
                           DeleteVerificationValue (verification_id v),
                           FindSession (verification_value v)]\<rparr>)"
  using assms by (simp add: handler_simps deleteVerificationValue_def)

lemma handler_new_session:
  assumes "fst (findVerificationValue (''one-time-token:'' @ storeToken options tok) s) = Some v"
    and "\<not> date_less (expiresAt v) (Some (now c))"
    and "fst (findSession (verification_value v) s) = Some a"
    and "opts_createSession options"
  shows "verify_handler options c tok s =
    (let newSession = \<lparr>session_id = next_id s, userId = userId (session a), token = newSessionToken c\<rparr>
     in (Inr \<lparr>res_session = newSession, res_user = user a, res_token = Some (newSessionToken c),
              res_cookie = Some \<lparr>session = newSession, user = user a\<rparr>\<rparr>,
         s\<lparr>verifications := filter (\<lambda>w. verification_id w \<noteq> verification_id v) (verifications s),
           sessions := sessions s @ [newSession],
           next_id := Suc (next_id s),
           calls := calls s @ [FindVerificationValue (''one-time-token:'' @ storeToken options tok),
                               DeleteVerificationValue (verification_id v),
                               FindSession (verification_value v),
                               CreateSession (userId (session a))]\<rparr>))"
  using assms by (simp add: handler_simps deleteVerificationValue_def createSession_def)

lemma handler_succeeds:
  assumes "fst (findVerificationValue (''one-time-token:'' @ storeToken options tok) s) = Some v"
    and "\<not> date_less (expiresAt v) (Some (now c))"
    and "fst (findSession (verification_value v) s) = Some a"
  shows "\<exists>r s'. verify_handler options c tok s = (Inr r, s') \<and> res_user r = user a"
  using assms
  by (cases "opts_createSession options")
     (simp_all add: handler_new_session handler_same_session Let_def)

lemma handler_verifications:
  "verifications (snd (verify_handler options c tok s)) =
     (case fst (findVerificationValue (''one-time-token:'' @ storeToken options tok) s) of
        None \<Rightarrow> verifications s
      | Some v \<Rightarrow> filter (\<lambda>w. verification_id w \<noteq> verification_id v) (verifications s))"
proof (cases "fst (findVerificationValue (''one-time-token:'' @ storeToken options tok) s)")
  case None
  then show ?thesis by (simp add: handler_invalid)
next
  case found: (Some v)
  show ?thesis
  proof (cases "date_less (expiresAt v) (Some (now c))")
    case True
    with found show ?thesis by (simp add: handler_expired)
  next
    case False
    show ?thesis
    proof (cases "fst (findSession (verification_value v) s)")
      case None
      with found False show ?thesis by (simp add: handler_session_not_found)
    next
      case (Some a)
      with found False show ?thesis
        by (cases "opts_createSession options")
           (simp_all add: handler_new_session handler_same_session Let_def)
    qed
  qed
qed

lemma handler_reached:
  "reached_invalidation (fst (verify_handler options c tok s)) \<longleftrightarrow>
     fst (findVerificationValue (''one-time-token:'' @ storeToken options tok) s) \<noteq> None"
proof (cases "fst (findVerificationValue (''one-time-token:'' @ storeToken options tok) s)")
  case None
  then show ?thesis by (simp add: handler_invalid)
next
  case found: (Some v)
  show ?thesis
  proof (cases "date_less (expiresAt v) (Some (now c))")
    case True
    with found show ?thesis by (simp add: handler_expired)
  next
    case False
    show ?thesis
    proof (cases "fst (findSession (verification_value v) s)")
      case None
      with found False show ?thesis by (simp add: handler_session_not_found)
    next
      case (Some a)
      with found False show ?thesis
        by (cases "opts_createSession options")
           (simp_all add: handler_new_session handler_same_session Let_def)
    qed
  qed
qed

lemma reached_nonempty:
  "reached_invalidation (fst (verifyOneTimeTokenSession options c tok s)) \<Longrightarrow> tok \<noteq> []"
  by (auto simp: verify_empty)


section \<open>What verify calls do to the records of an identifier\<close>

lemma records_of_verify:
  "\<exists>Q. records_of k (snd (verifyOneTimeTokenSession options c tok s)) = filter Q (records_of k s)"
proof (cases "tok = []")
  case True
  then have "records_of k (snd (verifyOneTimeTokenSession options c tok s)) =
      filter (\<lambda>v. True) (records_of k s)"
    by (simp add: verify_empty)
  then show ?thesis by blast
next
  case False
  show ?thesis
  proof (cases "fst (findVerificationValue (''one-time-token:'' @ storeToken options tok) s)")
    case None
    with False have "records_of k (snd (verifyOneTimeTokenSession options c tok s)) =
      filter (\<lambda>v. True) (records_of k s)"
      by (simp add: verify_nonempty records_of_def handler_verifications)
    then show ?thesis by blast
  next
    case (Some v)
    with False have "records_of k (snd (verifyOneTimeTokenSession options c tok s)) =
      filter (\<lambda>w. verification_id w \<noteq> verification_id v) (records_of k s)"
      by (simp add: verify_nonempty records_of_def handler_verifications conj_commute)
    then show ?thesis by blast
  qed
qed

lemma records_of_verify_empty:
  "records_of k s = [] \<Longrightarrow> records_of k (snd (verifyOneTimeTokenSession options c tok s)) = []"
  using records_of_verify [of k options c tok s] by auto

lemma records_of_verify_length:
  "length (records_of k (snd (verifyOneTimeTokenSession options c tok s))) \<le> length (records_of k s)"
  using records_of_verify [of k options c tok s] by auto

lemma records_of_verify_all_empty:
  "records_of k s = [] \<Longrightarrow> records_of k (verify_all options cs s) = []"
  by (induction cs arbitrary: s) (auto simp: records_of_verify_empty)

lemma no_record_invalid:
  assumes "records_of (''one-time-token:'' @ storeToken options tok) s = []" and "tok \<noteq> []"
  shows "fst (verifyOneTimeTokenSession options c tok s) = Inl (APIError BAD_REQUEST ''Invalid token'')"
  using assms by (simp add: verify_nonempty handler_invalid fst_find_None)

lemma consumed:
  assumes "length (records_of (''one-time-token:'' @ storeToken options tok) s) \<le> 1"
    and "reached_invalidation (fst (verifyOneTimeTokenSession options c tok s))"
  shows "records_of (''one-time-token:'' @ storeToken options tok)
           (snd (verifyOneTimeTokenSession options c tok s)) = []"
proof -
  let ?k = "''one-time-token:'' @ storeToken options tok"
  from assms(2) have ne: "tok \<noteq> []" by (rule reached_nonempty)
  with assms(2) obtain v where f: "fst (findVerificationValue ?k s) = Some v"
    by (auto simp: verify_nonempty handler_reached)
  from fst_find_Some [OF f] assms(1) have one: "records_of ?k s = [v]"
    by (rule single_record [rotated])
  from f ne have "records_of ?k (snd (verifyOneTimeTokenSession options c tok s)) =
      filter (\<lambda>w. verification_id w \<noteq> verification_id v) (records_of ?k s)"
    by (simp add: verify_nonempty records_of_def handler_verifications conj_commute)
  with one show ?thesis by simp
qed

lemma burned:
  assumes "records_of (''one-time-token:'' @ storeToken options tok) s = []" and "tok \<noteq> []"
  shows "fst (verifyOneTimeTokenSession options c tok (verify_all options cs s)) =
           Inl (APIError BAD_REQUEST ''Invalid token'')"
  using assms by (intro no_record_invalid records_of_verify_all_empty)

text \<open>
  Whatever the store holds, every record serves at most one verify call: a run cannot
  get past the lookup of an identifier more often than the store had records for it.
\<close>

lemma consumes_one:
  assumes "reached_invalidation (fst (verifyOneTimeTokenSession options c tok s))"
  shows "length (records_of (''one-time-token:'' @ storeToken options tok)
           (snd (verifyOneTimeTokenSession options c tok s)))
         < length (records_of (''one-time-token:'' @ storeToken options tok) s)"
proof -
  let ?k = "''one-time-token:'' @ storeToken options tok"
  from assms have ne: "tok \<noteq> []" by (rule reached_nonempty)
  with assms obtain v where f: "fst (findVerificationValue ?k s) = Some v"
    by (auto simp: verify_nonempty handler_reached)
  from f ne have "records_of ?k (snd (verifyOneTimeTokenSession options c tok s)) =
      filter (\<lambda>w. verification_id w \<noteq> verification_id v) (records_of ?k s)"
    by (simp add: verify_nonempty records_of_def handler_verifications conj_commute)
  moreover from fst_find_Some [OF f]
  have "length (filter (\<lambda>w. verification_id w \<noteq> verification_id v) (records_of ?k s))
          < length (records_of ?k s)"
    by (intro length_filter_less [of v]) auto
  ultimately show ?thesis by simp
qed

lemma redemptions_bounded:
  "redemptions options x cs s \<le> length (records_of (''one-time-token:'' @ x) s)"
proof (induction cs arbitrary: s)
  case Nil
  then show ?case by simp
next
  case (Cons a cs)
  obtain c t where a: "a = (c, t)" by (cases a)
  let ?s' = "snd (verifyOneTimeTokenSession options c t s)"
  have IH: "redemptions options x cs ?s' \<le> length (records_of (''one-time-token:'' @ x) ?s')"
    by (rule Cons.IH)
  show ?case
  proof (cases "storeToken options t = x \<and>
         reached_invalidation (fst (verifyOneTimeTokenSession options c t s))")
    case True
    with consumes_one [of options c t s]
    have "length (records_of (''one-time-token:'' @ x) ?s')
            < length (records_of (''one-time-token:'' @ x) s)"
      by auto
    with IH True a show ?thesis by simp
  next
    case False
    with IH records_of_verify_length [of "''one-time-token:'' @ x" options c t s] a
    show ?thesis by auto
  qed
qed

lemma verify_distinct:
  "distinct (map verification_id (verifications s)) \<Longrightarrow>
   distinct (map verification_id (verifications (snd (verifyOneTimeTokenSession options c tok s))))"
  by (cases "tok = []")
     (auto simp: verify_empty verify_nonempty handler_verifications distinct_map_filter
           split: option.splits)

lemma verify_keeps_others:
  assumes "distinct (map verification_id (verifications s))"
    and "tok \<noteq> [] \<longrightarrow> storeToken options tok \<noteq> x"
  shows "records_of (''one-time-token:'' @ x) (snd (verifyOneTimeTokenSession options c tok s)) =
         records_of (''one-time-token:'' @ x) s"
proof (cases "tok = []")
  case True
  then show ?thesis by (simp add: verify_empty)
next
  case False
  with assms(2) have diff: "storeToken options tok \<noteq> x" by simp
  show ?thesis
  proof (cases "fst (findVerificationValue (''one-time-token:'' @ storeToken options tok) s)")
    case None
    with False show ?thesis
      by (simp add: verify_nonempty records_of_def handler_verifications)
  next
    case (Some v)
    from fst_find_Some [OF Some]
    have v: "v \<in> set (verifications s)"
      "verification_identifier v = ''one-time-token:'' @ storeToken options tok"
      by (simp_all add: records_of_def)
    have "verification_id w \<noteq> verification_id v"
      if w: "w \<in> set (records_of (''one-time-token:'' @ x) s)" for w
    proof
      assume eq: "verification_id w = verification_id v"
      from w have "w \<in> set (verifications s)"
        and wi: "verification_identifier w = ''one-time-token:'' @ x"
        by (simp_all add: records_of_def)
      with assms(1) v(1) eq have "w = v"
        by (meson distinct_map inj_onD)
      with wi v(2) diff show False by simp
    qed
    then have "filter (\<lambda>w. verification_id w \<noteq> verification_id v)
                 (records_of (''one-time-token:'' @ x) s)
        = records_of (''one-time-token:'' @ x) s"
      by (simp add: filter_id_conv)
    with Some False show ?thesis
      by (simp add: verify_nonempty records_of_def handler_verifications conj_commute)
  qed
qed

lemma verify_all_keeps_others:
  assumes "distinct (map verification_id (verifications s))"
    and "\<forall>(c, tok) \<in> set cs. tok \<noteq> [] \<longrightarrow> storeToken options tok \<noteq> x"
  shows "records_of (''one-time-token:'' @ x) (verify_all options cs s) =
         records_of (''one-time-token:'' @ x) s"
  using assms
proof (induction cs arbitrary: s)
  case Nil
  then show ?case by simp
next
  case (Cons a cs)
  obtain c t where a: "a = (c, t)" by (cases a)
  from Cons.prems a have t: "t \<noteq> [] \<longrightarrow> storeToken options t \<noteq> x" by simp
  from Cons.prems a
  have "records_of (''one-time-token:'' @ x)
          (verify_all options cs (snd (verifyOneTimeTokenSession options c t s))) =
        records_of (''one-time-token:'' @ x) (snd (verifyOneTimeTokenSession options c t s))"
    by (intro Cons.IH verify_distinct) auto
  with verify_keeps_others [OF Cons.prems(1) t] a show ?case by simp
qed


section \<open>The generate endpoint\<close>

lemma generate_Inr:
  assumes "generateOneTimeTokenSession options c s = (Inr tok, s')"
  shows "s' = s\<lparr>verifications := verifications s @
               [\<lparr>verification_id = next_id s,
                 verification_identifier = ''one-time-token:'' @ storeToken options tok,
                 verification_value = token (session (ctx_session c)),
                 expiresAt = new_Date (js_add (Finite (of_int (now c)))
                   (js_mul (js_mul (opts_expiresIn options) (Finite 60)) (Finite 1000)))\<rparr>],
             next_id := Suc (next_id s),
             calls := calls s @
               [CreateVerificationValue (''one-time-token:'' @ storeToken options tok)]\<rparr>"
  using assms
  by (auto simp add: generateOneTimeTokenSession_def createVerificationValue_def Let_def
      split: if_splits)


lemma storeToken_cases:
  "storeToken options tok =
     (case options_storeToken options of
        Absent \<Rightarrow> tok
      | Undefined \<Rightarrow> tok
      | Given Plain \<Rightarrow> tok
      | Given Hashed \<Rightarrow> base64url (sha256 (utf8 tok))
      | Given (CustomHasher hash) \<Rightarrow> hash tok)"
  by (simp add: storeToken_def opts_storeToken_def defaultKeyHasher_def
      split: given.splits store_token.splits)


section \<open>The default key hasher on the token of the repository's tests\<close>

lemma sha256_123456:
  "defaultKeyHasher ''123456'' = ''jZae727K08KaOmKSgOaGzww_XVqGr_PKEgIMkjrcbJI''"
  by code_simp


section \<open>The handler step by step\<close>

text \<open>Run without interruption, the four steps are the handler.\<close>

lemma steps_refine:
  "steps options c 4 (Start tok) s =
     (Done (fst (verify_handler options c tok s)), snd (verify_handler options c tok s))"
  by (simp add: eval_nat_numeral verify_handler_def Let_def case_prod_unfold
      split: option.splits)

lemma interleave_append:
  "interleave options c1 c2 (ts @ us) st =
     interleave options c1 c2 us (interleave options c1 c2 ts st)"
proof (induction ts arbitrary: st)
  case Nil
  then show ?case by simp
next
  case (Cons t ts)
  obtain p1 p2 s where st: "st = (p1, p2, s)" by (cases st)
  show ?case
    by (cases t) (simp_all add: st Cons.IH case_prod_unfold Let_def)
qed

lemma interleave_first:
  "interleave options c1 c2 (replicate n First) (p1, p2, s) =
     (fst (steps options c1 n p1 s), p2, snd (steps options c1 n p1 s))"
  by (induction n arbitrary: p1 s) (simp_all add: case_prod_unfold Let_def)

lemma interleave_second:
  "interleave options c1 c2 (replicate n Second) (p1, p2, s) =
     (p1, fst (steps options c2 n p2 s), snd (steps options c2 n p2 s))"
  by (induction n arbitrary: p2 s) (simp_all add: case_prod_unfold Let_def)

text \<open>Two requests that do not overlap are two handler calls, one after the other.\<close>

lemma interleave_sequential:
  "interleave options c1 c2 (replicate 4 First @ replicate 4 Second) (Start t1, Start t2, s) =
     (Done (fst (verify_handler options c1 t1 s)),
      Done (fst (verify_handler options c2 t2 (snd (verify_handler options c1 t1 s)))),
      snd (verify_handler options c2 t2 (snd (verify_handler options c1 t1 s))))"
  by (simp only: interleave_append interleave_first interleave_second steps_refine fst_conv snd_conv)

text \<open>
  Two requests for one token that both look the record up before either deletes it both
  succeed, whatever the options and the store.
\<close>

lemma overlapping_requests_both_succeed:
  assumes "fst (findVerificationValue (''one-time-token:'' @ storeToken options tok) s) = Some v"
    and "\<not> date_less (expiresAt v) (Some (now c1))"
    and "\<not> date_less (expiresAt v) (Some (now c2))"
    and "fst (findSession (verification_value v) s) = Some a"
  shows "\<exists>r1 r2 s'. interleave options c1 c2
           [First, Second, First, Second, First, Second, First, Second]
           (Start tok, Start tok, s) = (Done (Inr r1), Done (Inr r2), s')"
proof -
  note ne = assms(2,3)
  have fs: "fst (findSession (verification_value v) (s\<lparr>verifications := vs, calls := cs\<rparr>)) = Some a"
    for vs cs
    using assms(4) by (simp add: fst_findSession_calls fst_findSession_verifications)
  have sf: "snd (findSession t s0) = s0\<lparr>calls := calls s0 @ [FindSession t]\<rparr>" for t s0
    by (simp add: findSession_def)
  from assms(1)
  have f1: "find (\<lambda>v. verification_identifier v = ''one-time-token:'' @ storeToken options tok)
              (rev (verifications s)) = Some v"
    by (simp add: findVerificationValue_def)
  show ?thesis
    using f1 ne
    by (cases "opts_createSession options")
       (simp_all add: Let_def case_prod_unfold findVerificationValue_def deleteVerificationValue_def
          createSession_def fs sf)
qed


section \<open>Runs of generate and verify calls\<close>

lemma generate_records_of:
  assumes "\<not> issues options x (Generated (fst (generateOneTimeTokenSession options c s)))"
  shows "records_of (''one-time-token:'' @ x) (snd (generateOneTimeTokenSession options c s)) =
         records_of (''one-time-token:'' @ x) s"
proof (cases "opts_disableClientRequest options \<and> request c \<noteq> None")
  case True
  then show ?thesis by (simp add: generateOneTimeTokenSession_def)
next
  case False
  then obtain tok where g: "generateOneTimeTokenSession options c s =
      (Inr tok, createVerificationValue (token (session (ctx_session c)))
         (''one-time-token:'' @ storeToken options tok)
         (new_Date (js_add (Finite (of_int (now c)))
            (js_mul (js_mul (opts_expiresIn options) (Finite 60)) (Finite 1000)))) s)"
    by (simp add: generateOneTimeTokenSession_def Let_def)
  with assms have "storeToken options tok \<noteq> x" by simp
  with g show ?thesis
    by (simp add: createVerificationValue_def records_of_def)
qed

lemma serve_records_of:
  assumes "\<not> issues options x (fst (serve options r s))"
  shows "\<exists>Q. records_of (''one-time-token:'' @ x) (snd (serve options r s)) =
              filter Q (records_of (''one-time-token:'' @ x) s)"
proof (cases r)
  case (Generate c)
  with assms generate_records_of [of options x c s]
  have "records_of (''one-time-token:'' @ x) (snd (serve options r s)) =
          filter (\<lambda>v. True) (records_of (''one-time-token:'' @ x) s)"
    by simp
  then show ?thesis by blast
next
  case (Verify c tok)
  with records_of_verify [of "''one-time-token:'' @ x" options c tok s] show ?thesis by simp
qed

lemma serve_records_of_empty:
  "\<not> issues options x (fst (serve options r s)) \<Longrightarrow>
   records_of (''one-time-token:'' @ x) s = [] \<Longrightarrow>
   records_of (''one-time-token:'' @ x) (snd (serve options r s)) = []"
  using serve_records_of [of options x r s] by auto

lemma serve_records_of_length:
  "\<not> issues options x (fst (serve options r s)) \<Longrightarrow>
   length (records_of (''one-time-token:'' @ x) (snd (serve options r s)))
     \<le> length (records_of (''one-time-token:'' @ x) s)"
  using serve_records_of [of options x r s] by auto

lemma store_after_empty:
  assumes "records_of (''one-time-token:'' @ x) s = []"
    and "\<forall>out \<in> set (outcomes options rs s). \<not> issues options x out"
  shows "records_of (''one-time-token:'' @ x) (store_after options rs s) = []"
  using assms
proof (induction rs arbitrary: s)
  case Nil
  then show ?case by simp
next
  case (Cons r rs)
  from Cons.prems have "records_of (''one-time-token:'' @ x) (snd (serve options r s)) = []"
    by (intro serve_records_of_empty) simp_all
  moreover from Cons.prems(2)
  have "\<forall>out \<in> set (outcomes options rs (snd (serve options r s))). \<not> issues options x out"
    by simp
  ultimately have "records_of (''one-time-token:'' @ x)
      (store_after options rs (snd (serve options r s))) = []"
    by (rule Cons.IH)
  then show ?case by simp
qed

lemma burned_outcomes:
  assumes "records_of (''one-time-token:'' @ storeToken options tok) s = []" and "tok \<noteq> []"
    and "\<forall>out \<in> set (outcomes options rs s). \<not> issues options (storeToken options tok) out"
    and "j < length rs" and "rs ! j = Verify cj tok"
  shows "outcomes options rs s ! j = Verified (Inl (APIError BAD_REQUEST ''Invalid token''))"
  using assms
proof (induction rs arbitrary: s j)
  case Nil
  then show ?case by simp
next
  case (Cons r rs)
  show ?case
  proof (cases j)
    case 0
    with Cons.prems show ?thesis by (simp add: no_record_invalid)
  next
    case (Suc j')
    from Cons.prems
    have "records_of (''one-time-token:'' @ storeToken options tok) (snd (serve options r s)) = []"
      by (intro serve_records_of_empty) simp_all
    from Cons.IH [OF this Cons.prems(2), of j'] Cons.prems Suc show ?thesis by simp
  qed
qed

lemma later_verify_invalid:
  assumes "length (records_of (''one-time-token:'' @ storeToken options tok) s) \<le> 1"
    and "\<forall>out \<in> set (outcomes options rs s). \<not> issues options (storeToken options tok) out"
    and "i < j" and "j < length rs" and "rs ! i = Verify ci tok" and "rs ! j = Verify cj tok"
    and "outcomes options rs s ! i = Verified r" and "reached_invalidation r"
  shows "outcomes options rs s ! j = Verified (Inl (APIError BAD_REQUEST ''Invalid token''))"
  using assms
proof (induction rs arbitrary: s i j)
  case Nil
  then show ?case by simp
next
  case (Cons a rs)
  from Cons.prems obtain j' where j: "j = Suc j'" by (cases j) auto
  from Cons.prems(2)
  have rest: "\<forall>out \<in> set (outcomes options rs (snd (serve options a s))).
                \<not> issues options (storeToken options tok) out"
    and here: "\<not> issues options (storeToken options tok) (fst (serve options a s))"
    by simp_all
  show ?case
  proof (cases i)
    case 0
    with Cons.prems have a: "a = Verify ci tok"
      and r: "reached_invalidation (fst (verifyOneTimeTokenSession options ci tok s))"
      by auto
    from r have ne: "tok \<noteq> []" by (rule reached_nonempty)
    from consumed [OF Cons.prems(1) r] a
    have "records_of (''one-time-token:'' @ storeToken options tok) (snd (serve options a s)) = []"
      by simp
    from burned_outcomes [OF this ne rest, of j' cj] Cons.prems j show ?thesis by simp
  next
    case (Suc i')
    have "length (records_of (''one-time-token:'' @ storeToken options tok)
             (snd (serve options a s))) \<le> 1"
      using serve_records_of_length [OF here] Cons.prems(1) by simp
    from Cons.IH [OF this rest, of i' j'] Cons.prems j Suc show ?thesis by simp
  qed
qed


section \<open>Evaluation of the examples\<close>

lemma sha256_empty:
  "defaultKeyHasher [] = ''47DEQpj8HBSa-_TImW-5JCeuQeRkm5NMpJWZG3hSuFU''"
  by code_simp

lemmas eval_simps =
  generateOneTimeTokenSession_def verifyOneTimeTokenSession_def verify_handler_def parse_body_def
  storeToken_def opts_storeToken_def opts_createSession_def opts_expiresIn_def
  opts_disableClientRequest_def createVerificationValue_def findVerificationValue_def
  deleteVerificationValue_def findSession_def createSession_def records_of_def
  fixed_token_def no_options_def server_ctx_def client_ctx_def store0_def alice_def
  alice_session_def issued_def at_time_def revoked_def other_ctx_def hashed_options_def
  suffix_options_def spaceless_options_def user_token_def bob_def bob_session_def bob_ctx_def
  store1_def revoke_def issued_twice_def Let_def
  round_double_numeral round_double_0 sha256_123456 sha256_empty


section \<open>C1: a token is redeemed at most once\<close>

text \<open>
  Claim C1 (single use), as the code has it. Let generate return the token \<open>T\<close> on a
  store that holds no record under the identifier of \<open>T\<close>, and take any run of generate
  and verify calls on the resulting store, with any tokens at any times, in which no
  generate call returns a token with the stored form of \<open>T\<close> again (the plugin does not
  deduplicate identifiers). Once a call \<open>verify(T)\<close> of the run has found the record, so
  that it succeeds or fails with "Token expired" or "Session not found", each of them
  only after the record is deleted, every later \<open>verify(T)\<close> of the run fails with
  \<open>BAD_REQUEST\<close> "Invalid token". In particular at most one \<open>verify(T)\<close> succeeds.
\<close>

theorem single_use:
  assumes "generateOneTimeTokenSession options c0 s0 = (Inr tok, s)"
    and "records_of (''one-time-token:'' @ storeToken options tok) s0 = []"
    and "\<forall>out \<in> set (outcomes options rs s). \<not> issues options (storeToken options tok) out"
    and "i < j" and "j < length rs" and "rs ! i = Verify ci tok" and "rs ! j = Verify cj tok"
    and "outcomes options rs s ! i = Verified r" and "reached_invalidation r"
  shows "outcomes options rs s ! j = Verified (Inl (APIError BAD_REQUEST ''Invalid token''))"
proof -
  from generate_Inr [OF assms(1)] assms(2)
  have "length (records_of (''one-time-token:'' @ storeToken options tok) s) \<le> 1"
    by (simp add: records_of_def)
  from later_verify_invalid [OF this assms(3-9)] show ?thesis .
qed

text \<open>
  Alice's session generates her token; the run then verifies it, generates a token for
  bob's session, verifies alice's token again and verifies bob's token. The first
  verify succeeds, the second fails with "Invalid token".
\<close>

theorem single_use_witness:
  "generateOneTimeTokenSession user_token server_ctx store1 =
     (Inr ''alice@example.com'', snd (generateOneTimeTokenSession user_token server_ctx store1)) \<and>
   outcomes user_token
     [Verify server_ctx ''alice@example.com'', Generate bob_ctx,
      Verify other_ctx ''alice@example.com'', Verify other_ctx ''bob@example.com'']
     (snd (generateOneTimeTokenSession user_token server_ctx store1)) =
   [Verified (Inr \<lparr>res_session = \<lparr>session_id = 8, userId = 1, token = ''fresh-durable-token''\<rparr>,
                   res_user = alice, res_token = Some ''fresh-durable-token'',
                   res_cookie = Some \<lparr>session = \<lparr>session_id = 8, userId = 1,
                                                  token = ''fresh-durable-token''\<rparr>,
                                      user = alice\<rparr>\<rparr>),
    Generated (Inr ''bob@example.com''),
    Verified (Inl (APIError BAD_REQUEST ''Invalid token'')),
    Verified (Inr \<lparr>res_session = \<lparr>session_id = 10, userId = 5, token = ''another-durable-token''\<rparr>,
                   res_user = bob, res_token = Some ''another-durable-token'',
                   res_cookie = Some \<lparr>session = \<lparr>session_id = 10, userId = 5,
                                                  token = ''another-durable-token''\<rparr>,
                                      user = bob\<rparr>\<rparr>)]"
proof -
  let ?s = "snd (generateOneTimeTokenSession user_token server_ctx store1)"
  let ?rs = "[Verify server_ctx ''alice@example.com'', Generate bob_ctx,
              Verify other_ctx ''alice@example.com'', Verify other_ctx ''bob@example.com'']"
  let ?r = "Inr \<lparr>res_session = \<lparr>session_id = 8, userId = 1, token = ''fresh-durable-token''\<rparr>,
                   res_user = alice, res_token = Some ''fresh-durable-token'',
                   res_cookie = Some \<lparr>session = \<lparr>session_id = 8, userId = 1,
                                                  token = ''fresh-durable-token''\<rparr>,
                                      user = alice\<rparr>\<rparr>"
  have out: "outcomes user_token ?rs ?s =
   [Verified ?r,
    Generated (Inr ''bob@example.com''),
    outcomes user_token ?rs ?s ! 2,
    Verified (Inr \<lparr>res_session = \<lparr>session_id = 10, userId = 5, token = ''another-durable-token''\<rparr>,
                   res_user = bob, res_token = Some ''another-durable-token'',
                   res_cookie = Some \<lparr>session = \<lparr>session_id = 10, userId = 5,
                                                  token = ''another-durable-token''\<rparr>,
                                      user = bob\<rparr>\<rparr>)]"
    by (simp add: eval_simps)
  have h1: "generateOneTimeTokenSession user_token server_ctx store1 = (Inr ''alice@example.com'', ?s)"
    by (simp add: eval_simps)
  have h2: "records_of (''one-time-token:'' @ storeToken user_token ''alice@example.com'') store1 = []"
    by (simp add: eval_simps)
  have h3: "\<forall>out \<in> set (outcomes user_token ?rs ?s).
              \<not> issues user_token (storeToken user_token ''alice@example.com'') out"
    by (subst out) (simp add: storeToken_def opts_storeToken_def user_token_def no_options_def)
  have h8: "outcomes user_token ?rs ?s ! 0 = Verified ?r"
    by (subst out) simp
  from single_use [OF h1 h2 h3, of 0 2 server_ctx other_ctx ?r] h8
  have "outcomes user_token ?rs ?s ! 2 = Verified (Inl (APIError BAD_REQUEST ''Invalid token''))"
    by simp
  with out h1 show ?thesis by simp
qed

text \<open>
  Against C1 as stated ("for every token T returned by generate, at most one call to
  verify(T) succeeds"): a generator that returns the same token twice, as the one of the
  repository's tests does, leaves two records under one identifier, and two verify calls
  of the token succeed, one per record.
\<close>

theorem token_issued_twice_counterexample:
  "outcomes (fixed_token ''123456'')
     [Generate server_ctx, Generate server_ctx,
      Verify server_ctx ''123456'', Verify other_ctx ''123456''] store0 =
   [Generated (Inr ''123456''),
    Generated (Inr ''123456''),
    Verified (Inr \<lparr>res_session = \<lparr>session_id = 5, userId = 1, token = ''fresh-durable-token''\<rparr>,
                   res_user = alice, res_token = Some ''fresh-durable-token'',
                   res_cookie = Some \<lparr>session = \<lparr>session_id = 5, userId = 1,
                                                  token = ''fresh-durable-token''\<rparr>,
                                      user = alice\<rparr>\<rparr>),
    Verified (Inr \<lparr>res_session = \<lparr>session_id = 6, userId = 1, token = ''another-durable-token''\<rparr>,
                   res_user = alice, res_token = Some ''another-durable-token'',
                   res_cookie = Some \<lparr>session = \<lparr>session_id = 6, userId = 1,
                                                  token = ''another-durable-token''\<rparr>,
                                      user = alice\<rparr>\<rparr>)]"
  by (simp add: eval_simps)


section \<open>C2: the expiry check\<close>





section \<open>C3: generate when client requests are disabled\<close>

text \<open>
  Claim C3 (client requests disabled), as the code has it. When \<open>disableClientRequest\<close> is
  set and the call carries a request, generate fails with \<open>BAD_REQUEST\<close> "Client requests
  are disabled" and leaves the store as it was: no record is created and no adapter call
  is made. A call without a request object succeeds, with the same outcome whatever the
  option says.
\<close>

theorem client_request_disabled:
  "(options_disableClientRequest options = Some True \<and> request c \<noteq> None \<longrightarrow>
      generateOneTimeTokenSession options c s =
        (Inl (APIError BAD_REQUEST ''Client requests are disabled''), s)) \<and>
   (request c = None \<longrightarrow>
      (\<exists>tok s'. generateOneTimeTokenSession options c s = (Inr tok, s')) \<and>
      generateOneTimeTokenSession options c s =
        generateOneTimeTokenSession (options\<lparr>options_disableClientRequest := b\<rparr>) c s)"
  by (simp add: generateOneTimeTokenSession_def opts_disableClientRequest_def Let_def
      storeToken_def opts_storeToken_def opts_expiresIn_def)

theorem client_request_disabled_witness:
  "generateOneTimeTokenSession (no_options\<lparr>options_disableClientRequest := Some True\<rparr>)
      client_ctx store0 =
        (Inl (APIError BAD_REQUEST ''Client requests are disabled''), store0) \<and>
   (\<exists>tok s'. generateOneTimeTokenSession (no_options\<lparr>options_disableClientRequest := Some True\<rparr>)
      server_ctx store0 = (Inr tok, s'))"
  using client_request_disabled
          [of "no_options\<lparr>options_disableClientRequest := Some True\<rparr>" client_ctx store0 "Some True"]
        client_request_disabled
          [of "no_options\<lparr>options_disableClientRequest := Some True\<rparr>" server_ctx store0 "Some True"]
  by (simp add: no_options_def client_ctx_def server_ctx_def)

text \<open>
  Against C3 as stated ("a FORBIDDEN-class error"): the error of a refused client request
  has the status \<open>BAD_REQUEST\<close>.
\<close>

theorem forbidden_status_counterexample:
  "fst (generateOneTimeTokenSession
       (no_options\<lparr>options_disableClientRequest := Some True\<rparr>) client_ctx store0) =
     Inl (APIError BAD_REQUEST ''Client requests are disabled'') \<and>
   error_status (APIError BAD_REQUEST ''Client requests are disabled'') \<noteq> FORBIDDEN"
  by (simp add: generateOneTimeTokenSession_def opts_disableClientRequest_def no_options_def
      client_ctx_def server_ctx_def)


section \<open>C4: validation of the token\<close>

text \<open>
  Claim C4 (input validation), as the code has it. The schema asks for a string of
  length at least 1 and does not trim. The empty token fails with the \<open>BAD_REQUEST\<close>
  validation error whatever the options, the context and the store are, and the store is
  left as it was, without any adapter call. Every non-empty token, a whitespace-only one
  included, passes validation: the handler runs and looks its identifier up.
\<close>

theorem empty_token_rejected:
  "verifyOneTimeTokenSession options c [] s =
     (Inl (APIError BAD_REQUEST ''Token is required''), s) \<and>
   (tok \<noteq> [] \<longrightarrow>
      (\<exists>rest. calls (snd (verifyOneTimeTokenSession options c tok s)) =
         calls s @ FindVerificationValue (''one-time-token:'' @ storeToken options tok) # rest))"
proof
  show "verifyOneTimeTokenSession options c [] s =
     (Inl (APIError BAD_REQUEST ''Token is required''), s)"
    by (rule verify_empty)
  show "tok \<noteq> [] \<longrightarrow>
      (\<exists>rest. calls (snd (verifyOneTimeTokenSession options c tok s)) =
         calls s @ FindVerificationValue (''one-time-token:'' @ storeToken options tok) # rest)"
    by (auto simp add: verifyOneTimeTokenSession_def parse_body_def verify_handler_def Let_def
        findVerificationValue_def deleteVerificationValue_def findSession_def createSession_def
        split: option.splits prod.splits)
qed

theorem empty_token_rejected_witness:
  "verifyOneTimeTokenSession no_options server_ctx [] store0 =
     (Inl (APIError BAD_REQUEST ''Token is required''), store0) \<and>
   (\<exists>rest. calls (snd (verifyOneTimeTokenSession no_options server_ctx '' '' store0)) =
      calls store0 @ FindVerificationValue ''one-time-token: '' # rest)"
  using empty_token_rejected [of no_options server_ctx store0 "'' ''"]
  by (simp add: storeToken_def opts_storeToken_def no_options_def)

text \<open>
  Against C4 as stated ("every empty or whitespace-only token"): a token that is one
  space, issued by a custom generator, is looked up, deleted and redeemed.
\<close>

theorem whitespace_token_counterexample:
  "verifyOneTimeTokenSession ((fixed_token '' '')\<lparr>options_createSession := Given False\<rparr>)
      server_ctx '' '' (issued (fixed_token '' '')) =
     (Inr \<lparr>res_session = alice_session, res_user = alice, res_token = None, res_cookie = None\<rparr>,
      store0\<lparr>next_id := 4,
             calls := [CreateVerificationValue ''one-time-token: '',
                       FindVerificationValue ''one-time-token: '',
                       DeleteVerificationValue 3,
                       FindSession ''durable-token-of-alice'']\<rparr>)"
  by (simp add: eval_simps)


section \<open>C5: round trip of a hashed token\<close>

text \<open>
  Claim C5 (hashed round trip), as the code has it. With \<open>storeToken = "hashed"\<close>, a
  generate call that returns the token \<open>T\<close> persists one record \<open>v\<close> whose identifier is
  \<open>"one-time-token:"\<close> followed by the unpadded base64url encoding of the SHA-256 digest
  of \<open>T\<close>, and a lookup of that identifier returns this record. A verify of \<open>T\<close> on the
  resulting store looks up that same identifier, recomputed from \<open>T\<close>, deletes \<open>v\<close> and
  succeeds with the user of the issuing session, provided \<open>T\<close> is not empty, the verify
  is made no later than the expiry time of \<open>v\<close>, and the issuing session is in the
  session store.
\<close>

theorem hashed_round_trip:
  assumes "options_storeToken options = Given Hashed"
    and "generateOneTimeTokenSession options c s = (Inr tok, s1)"
    and "tok \<noteq> []"
    and "\<forall>e. expiresAt (last (verifications s1)) = Some e \<longrightarrow> now c' \<le> e"
    and "fst (findSession (token (session (ctx_session c))) s) = Some a"
  shows "\<exists>v. verifications s1 = verifications s @ [v] \<and>
           verification_identifier v = ''one-time-token:'' @ base64url (sha256 (utf8 tok)) \<and>
           verification_value v = token (session (ctx_session c)) \<and>
           fst (findVerificationValue (''one-time-token:'' @ base64url (sha256 (utf8 tok))) s1) =
             Some v \<and>
           (\<exists>r s2 rest. verifyOneTimeTokenSession options c' tok s1 = (Inr r, s2) \<and>
              res_user r = user a \<and>
              calls s2 = calls s1 @
                [FindVerificationValue (''one-time-token:'' @ base64url (sha256 (utf8 tok))),
                 DeleteVerificationValue (verification_id v),
                 FindSession (token (session (ctx_session c)))] @ rest)"
proof -
  let ?k = "''one-time-token:'' @ base64url (sha256 (utf8 tok))"
  let ?v = "\<lparr>verification_id = next_id s,
             verification_identifier = ?k,
             verification_value = token (session (ctx_session c)),
             expiresAt = new_Date (js_add (Finite (of_int (now c)))
               (js_mul (js_mul (opts_expiresIn options) (Finite 60)) (Finite 1000)))\<rparr>"
  from assms(1) have st: "storeToken options tok = base64url (sha256 (utf8 tok))"
    by (simp add: storeToken_def opts_storeToken_def defaultKeyHasher_def)
  from generate_Inr [OF assms(2)] st
  have s1: "s1 = s\<lparr>verifications := verifications s @ [?v],
             next_id := Suc (next_id s),
             calls := calls s @ [CreateVerificationValue ?k]\<rparr>"
    by simp
  then have vs: "verifications s1 = verifications s @ [?v]" by simp
  from s1 have f: "fst (findVerificationValue ?k s1) = Some ?v"
    by (simp add: findVerificationValue_def)
  from s1 have "fst (findSession (token (session (ctx_session c))) s1) =
      fst (findSession (token (session (ctx_session c))) s)"
    by (simp add: findSession_def split: option.splits)
  with assms(5) have fs: "fst (findSession (verification_value ?v) s1) = Some a" by simp
  from assms(4) vs have ne: "\<not> date_less (expiresAt ?v) (Some (now c'))"
    by (auto simp: date_less_Some)
  from f st
  have f': "fst (findVerificationValue (''one-time-token:'' @ storeToken options tok) s1) = Some ?v"
    by simp
  have "\<exists>r s2 rest. verifyOneTimeTokenSession options c' tok s1 = (Inr r, s2) \<and>
              res_user r = user a \<and>
              calls s2 = calls s1 @
                [FindVerificationValue ?k, DeleteVerificationValue (verification_id ?v),
                 FindSession (token (session (ctx_session c)))] @ rest"
  proof (cases "opts_createSession options")
    case True
    from handler_new_session [OF f' ne fs True] assms(3) st show ?thesis
      by (simp add: verify_nonempty Let_def)
  next
    case False
    from handler_same_session [OF f' ne fs False] assms(3) st show ?thesis
      by (simp add: verify_nonempty)
  qed
  with vs f show ?thesis by (intro exI [of _ ?v]) simp
qed

text \<open>
  The configuration of the repository's test: the token "123456" is stored under
  \<open>one-time-token:jZae727K08KaOmKSgOaGzww_XVqGr_PKEgIMkjrcbJI\<close> and verifies.
\<close>

theorem hashed_round_trip_witness:
  "fst (findVerificationValue ''one-time-token:jZae727K08KaOmKSgOaGzww_XVqGr_PKEgIMkjrcbJI''
      (issued hashed_options)) =
     Some \<lparr>verification_id = 3,
           verification_identifier = ''one-time-token:jZae727K08KaOmKSgOaGzww_XVqGr_PKEgIMkjrcbJI'',
           verification_value = ''durable-token-of-alice'',
           expiresAt = Some 181000\<rparr> \<and>
   (\<exists>r s2 rest. verifyOneTimeTokenSession hashed_options (at_time 181000) ''123456''
               (issued hashed_options) = (Inr r, s2) \<and> res_user r = alice \<and>
      calls s2 = calls (issued hashed_options) @
        [FindVerificationValue ''one-time-token:jZae727K08KaOmKSgOaGzww_XVqGr_PKEgIMkjrcbJI'',
         DeleteVerificationValue 3,
         FindSession ''durable-token-of-alice''] @ rest)"
proof -
  have h1: "options_storeToken hashed_options = Given Hashed"
    by (simp add: hashed_options_def)
  have h2: "generateOneTimeTokenSession hashed_options server_ctx store0 =
              (Inr ''123456'', issued hashed_options)"
    by (simp add: issued_def generateOneTimeTokenSession_def opts_disableClientRequest_def
        hashed_options_def fixed_token_def no_options_def server_ctx_def Let_def)
  have h3: "''123456'' \<noteq> []" by simp
  have vs: "verifications (issued hashed_options) =
     [\<lparr>verification_id = 3,
       verification_identifier = ''one-time-token:jZae727K08KaOmKSgOaGzww_XVqGr_PKEgIMkjrcbJI'',
       verification_value = ''durable-token-of-alice'',
       expiresAt = Some 181000\<rparr>]"
    by (simp add: eval_simps)
  have h4: "\<forall>e. expiresAt (last (verifications (issued hashed_options))) = Some e \<longrightarrow>
              now (at_time 181000) \<le> e"
    by (simp add: vs at_time_def)
  have h5: "fst (findSession (token (session (ctx_session server_ctx))) store0) =
              Some \<lparr>session = alice_session, user = alice\<rparr>"
    by (simp add: findSession_def server_ctx_def store0_def alice_def alice_session_def)
  have v: "base64url (sha256 (utf8 ''123456'')) = ''jZae727K08KaOmKSgOaGzww_XVqGr_PKEgIMkjrcbJI''"
    using sha256_123456 by (simp only: defaultKeyHasher_def)
  have t: "token (session (ctx_session server_ctx)) = ''durable-token-of-alice''"
    by (simp add: server_ctx_def alice_session_def)
  from hashed_round_trip [OF h1 h2 h3 h4 h5]
  show ?thesis
    unfolding v t vs by (auto simp: store0_def)
qed

text \<open>
  Against C5 as stated ("for every logical token T ... a subsequent verify(T) ...
  succeeds"): when the configured generator returns the empty string, generate stores
  the record under the digest of the empty string, and verify of the empty token fails
  at the validation of the body.
\<close>

theorem hashed_empty_token_counterexample:
  "generateOneTimeTokenSession ((fixed_token [])\<lparr>options_storeToken := Given Hashed\<rparr>)
       server_ctx store0 =
     (Inr [],
      store0\<lparr>verifications :=
               [\<lparr>verification_id = 3,
                 verification_identifier =
                   ''one-time-token:47DEQpj8HBSa-_TImW-5JCeuQeRkm5NMpJWZG3hSuFU'',
                 verification_value = ''durable-token-of-alice'',
                 expiresAt = Some 181000\<rparr>],
             next_id := 4,
             calls := [CreateVerificationValue
                         ''one-time-token:47DEQpj8HBSa-_TImW-5JCeuQeRkm5NMpJWZG3hSuFU'']\<rparr>) \<and>
   fst (verifyOneTimeTokenSession ((fixed_token [])\<lparr>options_storeToken := Given Hashed\<rparr>)
          server_ctx []
          (issued ((fixed_token [])\<lparr>options_storeToken := Given Hashed\<rparr>))) =
     Inl (APIError BAD_REQUEST ''Token is required'')"
  by (simp add: eval_simps)


section \<open>C6: what generate leaves behind\<close>





section \<open>C7: a vanished session burns the record\<close>

text \<open>
  Claim C7 (session not found), as the code has it. For a non-empty token whose record
  \<open>v\<close> is found and not expired, when no session exists for the value stored in \<open>v\<close>,
  verify fails with \<open>BAD_REQUEST\<close> "Session not found". The store it leaves has gone
  through the lookup, the deletion of \<open>v\<close> and then the session lookup, in this order, so
  \<open>v\<close> is no longer stored when the error is raised. When \<open>v\<close> was the only record of its
  identifier, the token is burned: after any further generate and verify calls of which
  no generate returns a token of the same stored form, a verify of the token fails with
  "Invalid token".
\<close>

theorem session_not_found_burns_token:
  assumes "tok \<noteq> []"
    and "fst (findVerificationValue (''one-time-token:'' @ storeToken options tok) s) = Some v"
    and "\<forall>e. expiresAt v = Some e \<longrightarrow> now c \<le> e"
    and "fst (findSession (verification_value v) s) = None"
    and "s' = snd (verifyOneTimeTokenSession options c tok s)"
  shows "fst (verifyOneTimeTokenSession options c tok s) =
           Inl (APIError BAD_REQUEST ''Session not found'') \<and>
         s' = s\<lparr>verifications :=
                  filter (\<lambda>w. verification_id w \<noteq> verification_id v) (verifications s),
                calls := calls s @
                  [FindVerificationValue (''one-time-token:'' @ storeToken options tok),
                   DeleteVerificationValue (verification_id v),
                   FindSession (verification_value v)]\<rparr> \<and>
         v \<notin> set (verifications s') \<and>
         (length (records_of (''one-time-token:'' @ storeToken options tok) s) \<le> 1 \<longrightarrow>
            (\<forall>rs c'. (\<forall>out \<in> set (outcomes options rs s').
                         \<not> issues options (storeToken options tok) out) \<longrightarrow>
               fst (verifyOneTimeTokenSession options c' tok (store_after options rs s')) =
                 Inl (APIError BAD_REQUEST ''Invalid token'')))"
proof -
  from assms(3) have ne: "\<not> date_less (expiresAt v) (Some (now c))"
    by (auto simp: date_less_Some)
  from assms(1) handler_session_not_found [OF assms(2) ne assms(4)]
  have eq: "verifyOneTimeTokenSession options c tok s =
    (Inl (APIError BAD_REQUEST ''Session not found''),
     s\<lparr>verifications := filter (\<lambda>w. verification_id w \<noteq> verification_id v) (verifications s),
       calls := calls s @ [FindVerificationValue (''one-time-token:'' @ storeToken options tok),
                           DeleteVerificationValue (verification_id v),
                           FindSession (verification_value v)]\<rparr>)"
    by (simp add: verify_nonempty)
  with assms(5) have s': "s' = s\<lparr>verifications :=
                  filter (\<lambda>w. verification_id w \<noteq> verification_id v) (verifications s),
                calls := calls s @
                  [FindVerificationValue (''one-time-token:'' @ storeToken options tok),
                   DeleteVerificationValue (verification_id v),
                   FindSession (verification_value v)]\<rparr>"
    by simp
  then have gone: "v \<notin> set (verifications s')" by simp
  have later: "fst (verifyOneTimeTokenSession options c' tok (store_after options rs s')) =
                 Inl (APIError BAD_REQUEST ''Invalid token'')"
    if one: "length (records_of (''one-time-token:'' @ storeToken options tok) s) \<le> 1"
      and quiet: "\<forall>out \<in> set (outcomes options rs s').
                    \<not> issues options (storeToken options tok) out"
    for rs c'
  proof -
    from eq have "reached_invalidation (fst (verifyOneTimeTokenSession options c tok s))"
      by simp
    from consumed [OF one this] assms(5)
    have "records_of (''one-time-token:'' @ storeToken options tok) s' = []" by simp
    from store_after_empty [OF this quiet] assms(1) show ?thesis
      by (rule no_record_invalid)
  qed
  from eq s' gone later show ?thesis by simp
qed

text \<open>
  Alice's token after her session has been revoked: verify fails with "Session not
  found", the record is gone, and after a token was generated for bob's session and
  another token was tried, a verify of alice's token fails with "Invalid token".
\<close>

theorem session_not_found_burns_token_witness:
  "verifyOneTimeTokenSession user_token server_ctx ''alice@example.com''
       (revoked (issued user_token)) =
     (Inl (APIError BAD_REQUEST ''Session not found''),
      store0\<lparr>sessions := [], next_id := 4,
             calls := [CreateVerificationValue ''one-time-token:alice@example.com'',
                       FindVerificationValue ''one-time-token:alice@example.com'',
                       DeleteVerificationValue 3,
                       FindSession ''durable-token-of-alice'']\<rparr>) \<and>
   fst (verifyOneTimeTokenSession user_token server_ctx ''alice@example.com''
     (store_after user_token [Generate bob_ctx, Verify server_ctx ''abc'']
       (snd (verifyOneTimeTokenSession user_token server_ctx ''alice@example.com''
         (revoked (issued user_token)))))) =
     Inl (APIError BAD_REQUEST ''Invalid token'')"
proof -
  let ?o = "user_token"
  let ?T = "''alice@example.com''"
  let ?s = "revoked (issued ?o)"
  let ?rs = "[Generate bob_ctx, Verify server_ctx ''abc'']"
  let ?v = "\<lparr>verification_id = 3, verification_identifier = ''one-time-token:alice@example.com'',
             verification_value = ''durable-token-of-alice'', expiresAt = Some 181000\<rparr>"
  have h1: "?T \<noteq> []" by simp
  have h2: "fst (findVerificationValue (''one-time-token:'' @ storeToken ?o ?T) ?s) = Some ?v"
    by (simp add: eval_simps)
  have h3: "\<forall>e. expiresAt ?v = Some e \<longrightarrow> now server_ctx \<le> e" by (simp add: server_ctx_def)
  have h4: "fst (findSession (verification_value ?v) ?s) = None"
    by (simp add: eval_simps)
  have h5: "length (records_of (''one-time-token:'' @ storeToken ?o ?T) ?s) \<le> 1"
    by (simp add: eval_simps)
  have h6: "\<forall>out \<in> set (outcomes ?o ?rs (snd (verifyOneTimeTokenSession ?o server_ctx ?T ?s))).
              \<not> issues ?o (storeToken ?o ?T) out"
    by (simp add: eval_simps)
  from session_not_found_burns_token [OF h1 h2 h3 h4 refl] h5
  have a: "fst (verifyOneTimeTokenSession ?o server_ctx ?T ?s) =
           Inl (APIError BAD_REQUEST ''Session not found'')"
    and b: "snd (verifyOneTimeTokenSession ?o server_ctx ?T ?s) =
      ?s\<lparr>verifications :=
                  filter (\<lambda>w. verification_id w \<noteq> verification_id ?v) (verifications ?s),
                calls := calls ?s @
                  [FindVerificationValue (''one-time-token:'' @ storeToken ?o ?T),
                   DeleteVerificationValue (verification_id ?v),
                   FindSession (verification_value ?v)]\<rparr>"
    and c: "\<forall>rs c'. (\<forall>out \<in> set (outcomes ?o rs (snd (verifyOneTimeTokenSession ?o server_ctx ?T ?s))).
                         \<not> issues ?o (storeToken ?o ?T) out) \<longrightarrow>
              fst (verifyOneTimeTokenSession ?o c' ?T
                (store_after ?o rs (snd (verifyOneTimeTokenSession ?o server_ctx ?T ?s)))) =
                      Inl (APIError BAD_REQUEST ''Invalid token'')"
    by blast+
  from a b have "verifyOneTimeTokenSession ?o server_ctx ?T ?s =
     (Inl (APIError BAD_REQUEST ''Session not found''),
      store0\<lparr>sessions := [], next_id := 4,
             calls := [CreateVerificationValue ''one-time-token:alice@example.com'',
                       FindVerificationValue ''one-time-token:alice@example.com'',
                       DeleteVerificationValue 3,
                       FindSession ''durable-token-of-alice'']\<rparr>)"
    by (simp add: prod_eq_iff eval_simps)
  moreover from c h6
  have "fst (verifyOneTimeTokenSession ?o server_ctx ?T
          (store_after ?o ?rs (snd (verifyOneTimeTokenSession ?o server_ctx ?T ?s)))) =
        Inl (APIError BAD_REQUEST ''Invalid token'')"
    by blast
  ultimately show ?thesis by blast
qed

text \<open>
  Against C7 as stated ("the same token can never be redeemed afterwards"): the sessions
  of alice and of bob have both generated the token "123456", and bob's session has been
  revoked. The first verify finds bob's record, deletes it and fails with "Session not
  found"; the second verify of the same token finds alice's record and succeeds.
\<close>

theorem burned_token_redeemed_counterexample:
  "fst (verifyOneTimeTokenSession (fixed_token ''123456'') server_ctx ''123456'' issued_twice) =
     Inl (APIError BAD_REQUEST ''Session not found'') \<and>
   fst (verifyOneTimeTokenSession (fixed_token ''123456'') other_ctx ''123456''
     (snd (verifyOneTimeTokenSession (fixed_token ''123456'') server_ctx ''123456'' issued_twice))) =
     Inr \<lparr>res_session = \<lparr>session_id = 9, userId = 1, token = ''another-durable-token''\<rparr>,
          res_user = alice, res_token = Some ''another-durable-token'',
          res_cookie = Some \<lparr>session = \<lparr>session_id = 9, userId = 1,
                                         token = ''another-durable-token''\<rparr>,
                             user = alice\<rparr>\<rparr>"
  by (simp add: eval_simps)


section \<open>C8: verify without a new session\<close>

text \<open>
  Claim C8 (\<open>createSession = false\<close>). With \<open>createSession\<close> set to false, a verify call
  that succeeds returns exactly the session and the user that the session lookup yields
  for the value stored in the record it found, together with \<open>token: null\<close>, and sets no
  session cookie. Its adapter calls are the lookup of the record, its deletion and the
  session lookup: no session is created, and the sessions of the store are as before.
\<close>

theorem verify_without_new_session:
  assumes "options_createSession options = Given False"
    and "verifyOneTimeTokenSession options c tok s = (Inr r, s')"
  shows "\<exists>v a. fst (findVerificationValue (''one-time-token:'' @ storeToken options tok) s) = Some v \<and>
           fst (findSession (verification_value v) s) = Some a \<and>
           r = \<lparr>res_session = session a, res_user = user a, res_token = None, res_cookie = None\<rparr> \<and>
           s' = s\<lparr>verifications :=
                    filter (\<lambda>w. verification_id w \<noteq> verification_id v) (verifications s),
                  calls := calls s @
                    [FindVerificationValue (''one-time-token:'' @ storeToken options tok),
                     DeleteVerificationValue (verification_id v),
                     FindSession (verification_value v)]\<rparr> \<and>
           sessions s' = sessions s"
proof -
  from assms(1) have nc: "\<not> opts_createSession options"
    by (simp add: opts_createSession_def)
  from assms(2) have ne: "tok \<noteq> []"
    by (auto simp: verify_empty)
  with assms(2) have h: "verify_handler options c tok s = (Inr r, s')"
    by (simp add: verify_nonempty)
  show ?thesis
  proof (cases "fst (findVerificationValue (''one-time-token:'' @ storeToken options tok) s)")
    case None
    with h show ?thesis by (simp add: handler_invalid)
  next
    case found: (Some v)
    show ?thesis
    proof (cases "date_less (expiresAt v) (Some (now c))")
      case True
      with found h show ?thesis by (simp add: handler_expired)
    next
      case False
      show ?thesis
      proof (cases "fst (findSession (verification_value v) s)")
        case None
        with found False h show ?thesis by (simp add: handler_session_not_found)
      next
        case (Some a)
        from handler_same_session [OF found False Some nc] h
        have "r = \<lparr>res_session = session a, res_user = user a, res_token = None, res_cookie = None\<rparr>"
          and "s' = s\<lparr>verifications :=
                    filter (\<lambda>w. verification_id w \<noteq> verification_id v) (verifications s),
                  calls := calls s @
                    [FindVerificationValue (''one-time-token:'' @ storeToken options tok),
                     DeleteVerificationValue (verification_id v),
                     FindSession (verification_value v)]\<rparr>"
          by simp_all
        with Some found show ?thesis by simp
      qed
    qed
  qed
qed

theorem verify_without_new_session_witness:
  "verifyOneTimeTokenSession ((fixed_token ''123456'')\<lparr>options_createSession := Given False\<rparr>)
      server_ctx ''123456'' (issued (fixed_token ''123456'')) =
     (Inr \<lparr>res_session = alice_session, res_user = alice, res_token = None, res_cookie = None\<rparr>,
      store0\<lparr>next_id := 4,
             calls := [CreateVerificationValue ''one-time-token:123456'',
                       FindVerificationValue ''one-time-token:123456'',
                       DeleteVerificationValue 3,
                       FindSession ''durable-token-of-alice'']\<rparr>)"
proof -
  let ?o = "(fixed_token ''123456'')\<lparr>options_createSession := Given False\<rparr>"
  have h1: "options_createSession ?o = Given False" by simp
  obtain r s' where h2: "verifyOneTimeTokenSession ?o server_ctx ''123456''
      (issued (fixed_token ''123456'')) = (Inr r, s')"
    by (simp add: eval_simps)
  from verify_without_new_session [OF h1 h2] h2 show ?thesis
    by (simp add: eval_simps)
qed


section \<open>C9: two requests for one token\<close>

text \<open>
  Claim C9 (concurrent redemption race), at an input where the code fails it. One token
  is issued and two requests to verify it are in flight, in a store whose adapter calls
  are atomic and serialised. Their calls alternate, so both requests look the record up
  before either deletes it; the second delete finds nothing left to delete, and the
  handler does not look at the outcome of a delete. Both requests succeed, each with a
  new session: two redemptions of one token, where the claim asks for one success and
  one "Invalid token".
\<close>

theorem concurrent_redemption_race:
  "interleave (fixed_token ''123456'') server_ctx other_ctx
     [First, Second, First, Second, First, Second, First, Second]
     (Start ''123456'', Start ''123456'', issued (fixed_token ''123456'')) =
   (Done (Inr \<lparr>res_session = \<lparr>session_id = 4, userId = 1, token = ''fresh-durable-token''\<rparr>,
               res_user = alice, res_token = Some ''fresh-durable-token'',
               res_cookie = Some \<lparr>session = \<lparr>session_id = 4, userId = 1,
                                              token = ''fresh-durable-token''\<rparr>,
                                  user = alice\<rparr>\<rparr>),
    Done (Inr \<lparr>res_session = \<lparr>session_id = 5, userId = 1, token = ''another-durable-token''\<rparr>,
               res_user = alice, res_token = Some ''another-durable-token'',
               res_cookie = Some \<lparr>session = \<lparr>session_id = 5, userId = 1,
                                              token = ''another-durable-token''\<rparr>,
                                  user = alice\<rparr>\<rparr>),
    store0\<lparr>sessions := [alice_session,
                         \<lparr>session_id = 4, userId = 1, token = ''fresh-durable-token''\<rparr>,
                         \<lparr>session_id = 5, userId = 1, token = ''another-durable-token''\<rparr>],
           next_id := 6,
           calls := [CreateVerificationValue ''one-time-token:123456'',
                     FindVerificationValue ''one-time-token:123456'',
                     FindVerificationValue ''one-time-token:123456'',
                     DeleteVerificationValue 3,
                     DeleteVerificationValue 3,
                     FindSession ''durable-token-of-alice'',
                     FindSession ''durable-token-of-alice'',
                     CreateSession 1,
                     CreateSession 1]\<rparr>)"
  by (simp add: eval_simps)

text \<open>The same two requests, one after the other: the second fails with "Invalid token".\<close>

lemma sequential_redemption:
  "interleave (fixed_token ''123456'') server_ctx other_ctx
     [First, First, First, First, Second, Second, Second, Second]
     (Start ''123456'', Start ''123456'', issued (fixed_token ''123456'')) =
   (Done (Inr \<lparr>res_session = \<lparr>session_id = 4, userId = 1, token = ''fresh-durable-token''\<rparr>,
               res_user = alice, res_token = Some ''fresh-durable-token'',
               res_cookie = Some \<lparr>session = \<lparr>session_id = 4, userId = 1,
                                              token = ''fresh-durable-token''\<rparr>,
                                  user = alice\<rparr>\<rparr>),
    Done (Inl (APIError BAD_REQUEST ''Invalid token'')),
    store0\<lparr>sessions := [alice_session,
                         \<lparr>session_id = 4, userId = 1, token = ''fresh-durable-token''\<rparr>],
           next_id := 5,
           calls := [CreateVerificationValue ''one-time-token:123456'',
                     FindVerificationValue ''one-time-token:123456'',
                     DeleteVerificationValue 3,
                     FindSession ''durable-token-of-alice'',
                     CreateSession 1,
                     FindVerificationValue ''one-time-token:123456'']\<rparr>)"
  by (simp add: eval_simps)


section \<open>C10: an empty token\<close>

text \<open>
  Claim C10 (empty token), as the code has it. When the configured \<open>generateToken\<close>
  returns the empty string, generate succeeds, returns the empty token and persists a
  record under \<open>"one-time-token:"\<close> followed by the stored form of the empty string: the
  empty string itself when \<open>storeToken\<close> is \<open>"plain"\<close>, absent or \<open>undefined\<close>, the
  unpadded base64url encoding of its SHA-256 digest when it is \<open>"hashed"\<close>, and
  \<open>hash("")\<close> for a custom hasher. A verify of the empty token is rejected by the
  validation of the body, whatever the context and the store, and leaves the store as
  it was. No run of verify calls on a store with distinct record identities removes a
  record of that identifier, unless a call presents a non-empty token whose stored form
  is that of the empty token; with plain storage there is no such token.
\<close>

theorem empty_token_unredeemable:
  assumes "options_generateToken options = Some gen"
    and "gen (ctx_session c) c = []"
    and "\<not> (options_disableClientRequest options = Some True \<and> request c \<noteq> None)"
  shows "let transform = (\<lambda>t. case options_storeToken options of
                                 Absent \<Rightarrow> t
                               | Undefined \<Rightarrow> t
                               | Given Plain \<Rightarrow> t
                               | Given Hashed \<Rightarrow> base64url (sha256 (utf8 t))
                               | Given (CustomHasher hash) \<Rightarrow> hash t)
         in generateOneTimeTokenSession options c s =
              (Inr [],
               s\<lparr>verifications := verifications s @
                    [\<lparr>verification_id = next_id s,
                      verification_identifier = ''one-time-token:'' @ transform [],
                      verification_value = token (session (ctx_session c)),
                      expiresAt = new_Date (js_add (Finite (of_int (now c)))
                        (js_mul (js_mul (case options_expiresIn options of
                                           Absent \<Rightarrow> Finite 3
                                         | Undefined \<Rightarrow> NaN
                                         | Given x \<Rightarrow> to_double x) (Finite 60)) (Finite 1000)))\<rparr>],
                  next_id := Suc (next_id s),
                  calls := calls s @
                    [CreateVerificationValue (''one-time-token:'' @ transform [])]\<rparr>) \<and>
            (\<forall>c' s'. verifyOneTimeTokenSession options c' [] s' =
                        (Inl (APIError BAD_REQUEST ''Token is required''), s')) \<and>
            (\<forall>cs s'. distinct (map verification_id (verifications s')) \<and>
                      (\<forall>(c', tok) \<in> set cs. tok \<noteq> [] \<longrightarrow> transform tok \<noteq> transform [])
                      \<longrightarrow> records_of (''one-time-token:'' @ transform []) (verify_all options cs s') =
                          records_of (''one-time-token:'' @ transform []) s') \<and>
            (options_storeToken options \<in> {Absent, Undefined, Given Plain} \<longrightarrow>
               (\<forall>tok. tok \<noteq> [] \<longrightarrow> transform tok \<noteq> transform []))"
proof -
  have tr: "(\<lambda>t. case options_storeToken options of
                                 Absent \<Rightarrow> t
                               | Undefined \<Rightarrow> t
                               | Given Plain \<Rightarrow> t
                               | Given Hashed \<Rightarrow> base64url (sha256 (utf8 t))
                               | Given (CustomHasher hash) \<Rightarrow> hash t) = storeToken options"
    by (rule ext) (simp only: storeToken_cases)
  have ex: "(case options_expiresIn options of
               Absent \<Rightarrow> Finite 3 | Undefined \<Rightarrow> NaN | Given x \<Rightarrow> to_double x) =
            opts_expiresIn options"
    by (simp add: opts_expiresIn_def)
  from assms(3) have open_call: "\<not> (opts_disableClientRequest options \<and> request c \<noteq> None)"
    by (simp add: opts_disableClientRequest_def)
  have g: "generateOneTimeTokenSession options c s =
           (Inr [],
            s\<lparr>verifications := verifications s @
                 [\<lparr>verification_id = next_id s,
                   verification_identifier = ''one-time-token:'' @ storeToken options [],
                   verification_value = token (session (ctx_session c)),
                   expiresAt = new_Date (js_add (Finite (of_int (now c)))
                     (js_mul (js_mul (opts_expiresIn options) (Finite 60)) (Finite 1000)))\<rparr>],
               next_id := Suc (next_id s),
               calls := calls s @
                 [CreateVerificationValue (''one-time-token:'' @ storeToken options [])]\<rparr>)"
    using assms(1,2) open_call
    by (auto simp add: generateOneTimeTokenSession_def createVerificationValue_def Let_def)
  have v: "verifyOneTimeTokenSession options c' [] s' =
             (Inl (APIError BAD_REQUEST ''Token is required''), s')" for c' s'
    by (rule verify_empty)
  have keep: "records_of (''one-time-token:'' @ storeToken options []) (verify_all options cs s') =
              records_of (''one-time-token:'' @ storeToken options []) s'"
    if "distinct (map verification_id (verifications s')) \<and>
        (\<forall>(c', tok) \<in> set cs. tok \<noteq> [] \<longrightarrow> storeToken options tok \<noteq> storeToken options [])"
    for cs :: "(ctx \<times> string) list" and s' :: db
    using that by (intro verify_all_keeps_others) auto
  have plain: "storeToken options tok \<noteq> storeToken options []"
    if "options_storeToken options \<in> {Absent, Undefined, Given Plain}" and "tok \<noteq> []"
    for tok
    using that by (auto simp: storeToken_cases)
  show ?thesis
    unfolding Let_def tr ex
    using g v keep plain by blast
qed

text \<open>
  A generator that returns the empty string, with plain storage, with hashed storage and
  with the custom hasher of the repository's test: the record is stored under the
  identifier of the empty token, the empty token is rejected, and the record is still
  there after verify calls with the empty token and with another token.
\<close>

theorem empty_token_unredeemable_witness:
  "generateOneTimeTokenSession (fixed_token []) server_ctx store0 =
     (Inr [],
      store0\<lparr>verifications :=
               [\<lparr>verification_id = 3, verification_identifier = ''one-time-token:'',
                 verification_value = ''durable-token-of-alice'', expiresAt = Some 181000\<rparr>],
             next_id := 4,
             calls := [CreateVerificationValue ''one-time-token:'']\<rparr>) \<and>
   verifyOneTimeTokenSession (fixed_token []) server_ctx [] (issued (fixed_token [])) =
     (Inl (APIError BAD_REQUEST ''Token is required''), issued (fixed_token [])) \<and>
   records_of ''one-time-token:''
     (verify_all (fixed_token []) [(server_ctx, []), (server_ctx, ''123456'')]
        (issued (fixed_token []))) =
     [\<lparr>verification_id = 3, verification_identifier = ''one-time-token:'',
       verification_value = ''durable-token-of-alice'', expiresAt = Some 181000\<rparr>] \<and>
   records_of ''one-time-token:47DEQpj8HBSa-_TImW-5JCeuQeRkm5NMpJWZG3hSuFU''
     (verify_all ((fixed_token [])\<lparr>options_storeToken := Given Hashed\<rparr>)
        [(server_ctx, []), (server_ctx, ''123456'')]
        (issued ((fixed_token [])\<lparr>options_storeToken := Given Hashed\<rparr>))) =
     [\<lparr>verification_id = 3,
       verification_identifier = ''one-time-token:47DEQpj8HBSa-_TImW-5JCeuQeRkm5NMpJWZG3hSuFU'',
       verification_value = ''durable-token-of-alice'', expiresAt = Some 181000\<rparr>] \<and>
   records_of ''one-time-token:hashed''
     (verify_all (suffix_options []) [(server_ctx, []), (server_ctx, ''123456'')]
        (issued (suffix_options []))) =
     [\<lparr>verification_id = 3, verification_identifier = ''one-time-token:hashed'',
       verification_value = ''durable-token-of-alice'', expiresAt = Some 181000\<rparr>]"
proof -
  let ?cs = "[(server_ctx, []), (server_ctx, ''123456'')]"
  have d: "base64url (sha256 (utf8 ''123456'')) = ''jZae727K08KaOmKSgOaGzww_XVqGr_PKEgIMkjrcbJI''"
    "base64url (sha256 (utf8 [])) = ''47DEQpj8HBSa-_TImW-5JCeuQeRkm5NMpJWZG3hSuFU''"
    using sha256_123456 sha256_empty by (simp_all only: defaultKeyHasher_def)
  have plain: "generateOneTimeTokenSession (fixed_token []) server_ctx store0 =
     (Inr [],
      store0\<lparr>verifications :=
               [\<lparr>verification_id = 3, verification_identifier = ''one-time-token:'',
                 verification_value = ''durable-token-of-alice'', expiresAt = Some 181000\<rparr>],
             next_id := 4,
             calls := [CreateVerificationValue ''one-time-token:'']\<rparr>) \<and>
   verifyOneTimeTokenSession (fixed_token []) server_ctx [] (issued (fixed_token [])) =
     (Inl (APIError BAD_REQUEST ''Token is required''), issued (fixed_token [])) \<and>
   records_of ''one-time-token:'' (verify_all (fixed_token []) ?cs (issued (fixed_token []))) =
     [\<lparr>verification_id = 3, verification_identifier = ''one-time-token:'',
       verification_value = ''durable-token-of-alice'', expiresAt = Some 181000\<rparr>]"
  proof -
    let ?o = "fixed_token []"
    have h1: "options_generateToken ?o = Some (\<lambda>sess c. [])"
      by (simp add: fixed_token_def)
    have h2: "(\<lambda>sess c. []) (ctx_session server_ctx) server_ctx = ([] :: string)" by simp
    have h3: "\<not> (options_disableClientRequest ?o = Some True \<and> request server_ctx \<noteq> None)"
      by (simp add: server_ctx_def)
    have os: "options_storeToken ?o = Absent" "options_expiresIn ?o = Absent"
      by (simp_all add: fixed_token_def no_options_def)
    have h4: "distinct (map verification_id (verifications (issued ?o)))"
      by (simp add: eval_simps)
    have r0: "records_of ''one-time-token:'' (issued ?o) =
       [\<lparr>verification_id = 3, verification_identifier = ''one-time-token:'',
         verification_value = ''durable-token-of-alice'', expiresAt = Some 181000\<rparr>]"
      by (simp add: eval_simps)
    have t: "token (session (ctx_session server_ctx)) = ''durable-token-of-alice''"
      "next_id store0 = 3" "verifications store0 = []" "calls store0 = []"
      "now server_ctx = 1000"
      by (simp_all add: server_ctx_def alice_session_def store0_def)
    from empty_token_unredeemable [OF h1 h2 h3, of store0]
    have a: "generateOneTimeTokenSession ?o server_ctx store0 =
     (Inr [],
      store0\<lparr>verifications :=
               [\<lparr>verification_id = 3, verification_identifier = ''one-time-token:'',
                 verification_value = ''durable-token-of-alice'', expiresAt = Some 181000\<rparr>],
             next_id := 4,
             calls := [CreateVerificationValue ''one-time-token:'']\<rparr>)"
      and b: "\<forall>c' s'. verifyOneTimeTokenSession ?o c' [] s' =
                     (Inl (APIError BAD_REQUEST ''Token is required''), s')"
      and c: "\<forall>cs s'. distinct (map verification_id (verifications s')) \<and>
                   (\<forall>(c', tok) \<in> set cs. tok \<noteq> [] \<longrightarrow> tok \<noteq> [])
                   \<longrightarrow> records_of ''one-time-token:'' (verify_all ?o cs s') =
                       records_of ''one-time-token:'' s'"
      unfolding Let_def os t by (simp_all add: round_double_numeral)
    have h5: "\<forall>(c', tok) \<in> set ?cs. tok \<noteq> [] \<longrightarrow> tok \<noteq> []"
      by simp
    from c h4 h5 have "records_of ''one-time-token:'' (verify_all ?o ?cs (issued ?o)) =
        records_of ''one-time-token:'' (issued ?o)"
      by blast
    with a b r0 show ?thesis by simp
  qed
  have hashed: "records_of ''one-time-token:47DEQpj8HBSa-_TImW-5JCeuQeRkm5NMpJWZG3hSuFU''
     (verify_all ((fixed_token [])\<lparr>options_storeToken := Given Hashed\<rparr>) ?cs
        (issued ((fixed_token [])\<lparr>options_storeToken := Given Hashed\<rparr>))) =
     [\<lparr>verification_id = 3,
       verification_identifier = ''one-time-token:47DEQpj8HBSa-_TImW-5JCeuQeRkm5NMpJWZG3hSuFU'',
       verification_value = ''durable-token-of-alice'', expiresAt = Some 181000\<rparr>]"
  proof -
    let ?o = "(fixed_token [])\<lparr>options_storeToken := Given Hashed\<rparr>"
    have h1: "options_generateToken ?o = Some (\<lambda>sess c. [])"
      by (simp add: fixed_token_def)
    have h2: "(\<lambda>sess c. []) (ctx_session server_ctx) server_ctx = ([] :: string)" by simp
    have h3: "\<not> (options_disableClientRequest ?o = Some True \<and> request server_ctx \<noteq> None)"
      by (simp add: server_ctx_def)
    have os: "options_storeToken ?o = Given Hashed" by simp
    have h4: "distinct (map verification_id (verifications (issued ?o)))"
      by (simp add: eval_simps)
    have r0: "records_of ''one-time-token:47DEQpj8HBSa-_TImW-5JCeuQeRkm5NMpJWZG3hSuFU'' (issued ?o) =
       [\<lparr>verification_id = 3,
         verification_identifier = ''one-time-token:47DEQpj8HBSa-_TImW-5JCeuQeRkm5NMpJWZG3hSuFU'',
         verification_value = ''durable-token-of-alice'', expiresAt = Some 181000\<rparr>]"
      by (simp add: eval_simps)
    from empty_token_unredeemable [OF h1 h2 h3, of store0]
    have c: "\<forall>cs s'. distinct (map verification_id (verifications s')) \<and>
                   (\<forall>(c', tok) \<in> set cs. tok \<noteq> [] \<longrightarrow>
                      base64url (sha256 (utf8 tok)) \<noteq> base64url (sha256 (utf8 [])))
                   \<longrightarrow> records_of (''one-time-token:'' @ base64url (sha256 (utf8 [])))
                          (verify_all ?o cs s') =
                       records_of (''one-time-token:'' @ base64url (sha256 (utf8 []))) s'"
      unfolding Let_def os by simp
    have h5: "\<forall>(c', tok) \<in> set ?cs. tok \<noteq> [] \<longrightarrow>
                base64url (sha256 (utf8 tok)) \<noteq> base64url (sha256 (utf8 []))"
      by (simp add: d)
    from c h4 h5
    have "records_of (''one-time-token:'' @ base64url (sha256 (utf8 []))) (verify_all ?o ?cs (issued ?o)) =
          records_of (''one-time-token:'' @ base64url (sha256 (utf8 []))) (issued ?o)"
      by blast
    then show ?thesis unfolding d using r0 by simp
  qed
  have custom: "records_of ''one-time-token:hashed''
     (verify_all (suffix_options []) ?cs (issued (suffix_options []))) =
     [\<lparr>verification_id = 3, verification_identifier = ''one-time-token:hashed'',
       verification_value = ''durable-token-of-alice'', expiresAt = Some 181000\<rparr>]"
  proof -
    let ?o = "suffix_options []"
    have h1: "options_generateToken ?o = Some (\<lambda>sess c. [])"
      by (simp add: suffix_options_def fixed_token_def)
    have h2: "(\<lambda>sess c. []) (ctx_session server_ctx) server_ctx = ([] :: string)" by simp
    have h3: "\<not> (options_disableClientRequest ?o = Some True \<and> request server_ctx \<noteq> None)"
      by (simp add: server_ctx_def)
    have os: "options_storeToken ?o = Given (CustomHasher (\<lambda>t. t @ ''hashed''))"
      by (simp add: suffix_options_def)
    have h4: "distinct (map verification_id (verifications (issued ?o)))"
      by (simp add: eval_simps)
    have r0: "records_of ''one-time-token:hashed'' (issued ?o) =
       [\<lparr>verification_id = 3, verification_identifier = ''one-time-token:hashed'',
         verification_value = ''durable-token-of-alice'', expiresAt = Some 181000\<rparr>]"
      by (simp add: eval_simps)
    from empty_token_unredeemable [OF h1 h2 h3, of store0]
    have c: "\<forall>cs s'. distinct (map verification_id (verifications s')) \<and>
                   (\<forall>(c', tok) \<in> set cs. tok \<noteq> [] \<longrightarrow> tok @ ''hashed'' \<noteq> ''hashed'')
                   \<longrightarrow> records_of ''one-time-token:hashed'' (verify_all ?o cs s') =
                       records_of ''one-time-token:hashed'' s'"
      unfolding Let_def os by simp
    have h5: "\<forall>(c', tok) \<in> set ?cs. tok \<noteq> [] \<longrightarrow> tok @ ''hashed'' \<noteq> ''hashed''"
      by simp
    from c h4 h5 have "records_of ''one-time-token:hashed'' (verify_all ?o ?cs (issued ?o)) =
          records_of ''one-time-token:hashed'' (issued ?o)"
      by blast
    with r0 show ?thesis by simp
  qed
  from plain hashed custom show ?thesis by blast
qed

text \<open>
  Against C10 as stated ("that record can never be redeemed through verify"): with a
  custom hasher that drops spaces, the record of the empty token is stored under
  \<open>one-time-token:\<close>, and a verify of the token that is one space passes validation,
  is hashed to the empty string, finds that record and redeems it.
\<close>

theorem colliding_hasher_counterexample:
  "generateOneTimeTokenSession (spaceless_options []) server_ctx store0 =
     (Inr [],
      store0\<lparr>verifications :=
               [\<lparr>verification_id = 3, verification_identifier = ''one-time-token:'',
                 verification_value = ''durable-token-of-alice'', expiresAt = Some 181000\<rparr>],
             next_id := 4,
             calls := [CreateVerificationValue ''one-time-token:'']\<rparr>) \<and>
   verifyOneTimeTokenSession (spaceless_options []) server_ctx '' ''
       (issued (spaceless_options [])) =
     (Inr \<lparr>res_session = \<lparr>session_id = 4, userId = 1, token = ''fresh-durable-token''\<rparr>,
           res_user = alice, res_token = Some ''fresh-durable-token'',
           res_cookie = Some \<lparr>session = \<lparr>session_id = 4, userId = 1,
                                          token = ''fresh-durable-token''\<rparr>,
                              user = alice\<rparr>\<rparr>,
      store0\<lparr>sessions := [alice_session,
                           \<lparr>session_id = 4, userId = 1, token = ''fresh-durable-token''\<rparr>],
             next_id := 5,
             calls := [CreateVerificationValue ''one-time-token:'',
                       FindVerificationValue ''one-time-token:'',
                       DeleteVerificationValue 3,
                       FindSession ''durable-token-of-alice'',
                       CreateSession 1]\<rparr>)"
  by (simp add: eval_simps)

end
